theory Spec2Isabelle
  imports Main
begin

section \<open>Spans as the span utilities see them\<close>

text \<open>
  The span utilities (\<open>core/span-utils\<close>) never look inside a span: they call the
  methods of the OpenTelemetry \<open>Span\<close> interface on it. A span is therefore modelled as
  a recording object: the name, kind and attributes it was started with, and the
  sequence of method calls it has received, oldest first.
\<close>

datatype SpanStatusCode = UNSET | OK | ERROR

datatype SpanKind = INTERNAL | SERVER | CLIENT | PRODUCER | CONSUMER

datatype attr_value = AStr string | ANum int | ABool bool | AStrs "string list"

type_synonym attributes = "(string \<times> attr_value) list"

text \<open>
  A JavaScript \<open>throw\<close> raises any value: an instance of \<open>Error\<close>, which has a name
  and a message, or some other value (a string, a number, an object).
\<close>

datatype thrown = ErrorInstance string string | NonError string

datatype span_call =
    SetAttribute string attr_value
  | SetAttributes attributes
  | AddEvent string "attributes option"
  | RecordException thrown "attributes option"
  | SetStatus SpanStatusCode "string option"
  | End

record span =
  span_name :: string
  span_kind :: "SpanKind option"
  span_attributes :: "attributes option"
  calls :: "span_call list"

definition invoke :: "span_call \<Rightarrow> span \<Rightarrow> span" where
  "invoke c s = s\<lparr>calls := calls s @ [c]\<rparr>"

definition invoke_all :: "span_call list \<Rightarrow> span \<Rightarrow> span" where
  "invoke_all cs s = foldl (\<lambda>s' c. invoke c s') s cs"

text \<open>How often \<open>span.end()\<close> has been called on a span.\<close>

definition end_count :: "span \<Rightarrow> nat" where
  "end_count s = count_list (calls s) End"

text \<open>
  The status a span holds: the one of the last \<open>setStatus\<close> call it received
  (last write wins), \<open>UNSET\<close> without a message before the first.
\<close>

fun status_after :: "SpanStatusCode \<times> string option \<Rightarrow> span_call \<Rightarrow> SpanStatusCode \<times> string option" where
  "status_after st (SetStatus c m) = (c, m)"
| "status_after st (SetAttribute k v) = st"
| "status_after st (SetAttributes kvs) = st"
| "status_after st (AddEvent n kvs) = st"
| "status_after st (RecordException e kvs) = st"
| "status_after st End = st"

definition span_status :: "span \<Rightarrow> SpanStatusCode \<times> string option" where
  "span_status s = foldl status_after (UNSET, None) (calls s)"

subsection \<open>The active span\<close>

text \<open>
  \<open>trace.getActiveSpan()\<close> returns the span that is active in the calling
  context, or \<open>undefined\<close>. The tracer's state, as far as the utilities reach it,
  is that span and the spans that exist beside it.
\<close>

record tracer_state =
  active_span :: "span option"
  other_spans :: "span list"

definition getCurrentSpan :: "tracer_state \<Rightarrow> span option" where
  "getCurrentSpan st = active_span st"

definition addSpanAttribute :: "string \<Rightarrow> attr_value \<Rightarrow> tracer_state \<Rightarrow> tracer_state" where
  "addSpanAttribute key v st =
     (case getCurrentSpan st of
        None \<Rightarrow> st
      | Some span \<Rightarrow> st\<lparr>active_span := Some (invoke (SetAttribute key v) span)\<rparr>)"

definition addSpanAttributes :: "attributes \<Rightarrow> tracer_state \<Rightarrow> tracer_state" where
  "addSpanAttributes attrs st =
     (case getCurrentSpan st of
        None \<Rightarrow> st
      | Some span \<Rightarrow> st\<lparr>active_span := Some (invoke (SetAttributes attrs) span)\<rparr>)"

definition addSpanEvent :: "string \<Rightarrow> attributes option \<Rightarrow> tracer_state \<Rightarrow> tracer_state" where
  "addSpanEvent name attrs st =
     (case getCurrentSpan st of
        None \<Rightarrow> st
      | Some span \<Rightarrow> st\<lparr>active_span := Some (invoke (AddEvent name attrs) span)\<rparr>)"

definition recordException :: "thrown \<Rightarrow> attributes option \<Rightarrow> tracer_state \<Rightarrow> tracer_state" where
  "recordException error attrs st =
     (case getCurrentSpan st of
        None \<Rightarrow> st
      | Some span \<Rightarrow> st\<lparr>active_span := Some (invoke (RecordException error attrs) span)\<rparr>)"

definition setSpanStatus :: "SpanStatusCode \<Rightarrow> string option \<Rightarrow> tracer_state \<Rightarrow> tracer_state" where
  "setSpanStatus status message st =
     (case getCurrentSpan st of
        None \<Rightarrow> st
      | Some span \<Rightarrow> st\<lparr>active_span := Some (invoke (SetStatus status message) span)\<rparr>)"

subsection \<open>withSpan\<close>

text \<open>
  The function handed to \<open>withSpan\<close> receives the span and returns a promise. What
  \<open>withSpan\<close> observes of it is the calls it makes on the span before its promise
  settles, and how the promise settles: fulfilled with a result, rejected with a thrown
  value (a synchronous throw is caught by the same \<open>try\<close>), or never, when the promise
  stays pending. JavaScript has no other way to abandon an asynchronous function: a
  cancellation either rejects the promise or leaves it pending.
\<close>

datatype 'a outcome = Returned 'a | Threw thrown | Pending

type_synonym 'a span_fn = "span \<Rightarrow> span_call list \<times> 'a outcome"

record span_options =
  kind :: "SpanKind option"
  attributes :: "attributes option"

definition startActiveSpan :: "string \<Rightarrow> SpanKind option \<Rightarrow> attributes option \<Rightarrow> span" where
  "startActiveSpan spanName k attrs =
     \<lparr>span_name = spanName, span_kind = k, span_attributes = attrs, calls = []\<rparr>"

text \<open>\<open>error instanceof Error ? error.message : 'Unknown error'\<close>\<close>

fun error_status_message :: "thrown \<Rightarrow> string" where
  "error_status_message (ErrorInstance name message) = message"
| "error_status_message (NonError v) = ''Unknown error''"

text \<open>
  The \<open>try\<close> block sets the status \<open>OK\<close> after the function has returned, the
  \<open>catch\<close> block sets \<open>ERROR\<close>, records the exception and throws the value again,
  and the \<open>finally\<close> block ends the span on both ways out. While the promise of the
  function is pending, \<open>await\<close> does not return and none of the three blocks runs on.
\<close>

definition withSpan :: "string \<Rightarrow> 'a span_fn \<Rightarrow> span_options option \<Rightarrow> span \<times> 'a outcome" where
  "withSpan spanName fn options =
     (let span0 = startActiveSpan spanName (Option.bind options kind) (Option.bind options attributes);
          (fn_calls, settled) = fn span0;
          span = invoke_all fn_calls span0
      in case settled of
           Returned result \<Rightarrow>
             (invoke End (invoke (SetStatus OK None) span), Returned result)
         | Threw error \<Rightarrow>
             (invoke End
                (invoke (RecordException error None)
                   (invoke (SetStatus ERROR (Some (error_status_message error))) span)),
              Threw error)
         | Pending \<Rightarrow> (span, Pending))"

section \<open>Values shared by the boundary adapters\<close>

text \<open>
  A JavaScript string is truthy when it is not empty, and \<open>undefined\<close> is falsy:
  \<open>if (x)\<close> and \<open>x || d\<close> on an optional string.
\<close>

definition truthy :: "string option \<Rightarrow> bool" where
  "truthy x = (case x of None \<Rightarrow> False | Some s \<Rightarrow> s \<noteq> [])"

definition or_else :: "string option \<Rightarrow> string \<Rightarrow> string" where
  "or_else x d = (case x of None \<Rightarrow> d | Some s \<Rightarrow> if s \<noteq> [] then s else d)"

text \<open>
  An attribute object under construction: assigning to a key that is there replaces its
  value in place, a new key goes last. \<open>assign\<close> is \<open>Object.assign\<close>.
\<close>

fun put :: "string \<Rightarrow> attr_value \<Rightarrow> attributes \<Rightarrow> attributes" where
  "put k v [] = [(k, v)]"
| "put k v ((k', v') # kvs) = (if k = k' then (k, v) # kvs else (k', v') # put k v kvs)"

definition assign :: "attributes \<Rightarrow> attributes \<Rightarrow> attributes" where
  "assign target source = foldl (\<lambda>t (k, v). put k v t) target source"

text \<open>
  The fields of \<open>MessageHandlerContext\<close> (\<open>service-bus\<close>) and of the trace context
  that \<open>core/trace-context\<close> keeps. The second has the fields of the first (the
  adapters and the logger read \<open>correlationId\<close>, \<open>traceId\<close>, \<open>eventId\<close>,
  \<open>eventType\<close>, \<open>userId\<close>, \<open>spanId\<close> and \<open>requestId\<close> from it), so it is
  written as an extension and both keep the field names of the source. A field that is
  \<open>None\<close> is absent or \<open>undefined\<close>.
\<close>

record MessageHandlerContext =
  correlationId :: "string option"
  traceId :: "string option"
  eventId :: "string option"
  eventType :: "string option"
  userId :: "string option"

record TraceContext = MessageHandlerContext +
  spanId :: "string option"
  requestId :: "string option"

text \<open>
  A call of a function that the caller of the package supplies (a callback of the
  options) or of a built-in that can fail returns a value or throws: a result of type
  \<open>thrown + 'a\<close> is \<open>Inr\<close> the value returned or \<open>Inl\<close> the value thrown.
\<close>

text \<open>
  The identifiers a run of the program gets from its generator of random identifiers.
  An identifier is not empty, so it is given by its first character and the rest:
  \<open>nth_id g n\<close> is the identifier that the call number \<open>n\<close> returns, and \<open>drawn g\<close>
  counts the calls made so far.
\<close>

record id_gen =
  ids :: "nat \<Rightarrow> char \<times> string"
  drawn :: nat

definition nth_id :: "id_gen \<Rightarrow> nat \<Rightarrow> string" where
  "nth_id g n = fst (ids g n) # snd (ids g n)"

text \<open>
  Modelled from the spec: \<open>generateCorrelationId\<close> is in \<open>core/trace-context\<close>, which
  is not among the sources. The spec has \<open>generateId() -> string\<close> produce a random
  identifier that every other component treats as opaque, and has the adapters assign
  "a newly generated, non-empty id". The identifiers themselves are a parameter of the
  model, and each call takes the next one.
\<close>

definition generateCorrelationId :: "id_gen \<Rightarrow> string \<times> id_gen" where
  "generateCorrelationId g = (nth_id g (drawn g), g\<lparr>drawn := Suc (drawn g)\<rparr>)"

section \<open>The Service Bus adapter\<close>

text \<open>
  A JavaScript \<open>Date\<close> is a valid date, given here by its ISO rendering, or the invalid
  date (\<open>new Date(NaN)\<close>). \<open>toISOString()\<close> throws a \<open>RangeError\<close> on the invalid
  date.
\<close>

datatype js_date = ValidDate string | InvalidDate

fun toISOString :: "js_date \<Rightarrow> thrown + string" where
  "toISOString (ValidDate rendering) = Inr rendering"
| "toISOString InvalidDate = Inl (ErrorInstance ''RangeError'' ''Invalid time value'')"

record ServiceBusReceivedMessage =
  body :: string
  applicationProperties :: "(string \<Rightarrow> string option) option"
  messageId :: "string option"
  subject :: "string option"
  enqueuedTimeUtc :: "js_date option"
  deliveryCount :: "int option"

text \<open>
  Modelled from the spec: \<open>extractTraceFromServiceBusMessage\<close> is in
  \<open>core/trace-context\<close>, which is not among the sources. The spec has the message
  carrier hold the string-valued keys \<open>correlationId\<close>, \<open>traceId\<close>, \<open>eventId\<close>,
  \<open>eventType\<close> and \<open>userId\<close>, and the extraction leave unset every field whose key
  is absent, without a default.
\<close>

definition extractTraceFromServiceBusMessage :: "(string \<Rightarrow> string option) \<Rightarrow> TraceContext" where
  "extractTraceFromServiceBusMessage props =
     \<lparr>correlationId = props ''correlationId'', traceId = props ''traceId'',
      eventId = props ''eventId'', eventType = props ''eventType'',
      userId = props ''userId'', spanId = None, requestId = None\<rparr>"

text \<open>
  Modelled from the spec: \<open>runWithTraceContext\<close> is in \<open>core/trace-context\<close>, which
  is not among the sources. The spec has \<open>runWith(identity, fn)\<close> install the identity
  as the active one while \<open>fn\<close> runs and return the result of \<open>fn\<close>. The model
  returns, beside that result, the context that was active during the run.
\<close>

definition runWithTraceContext :: "TraceContext \<Rightarrow> 'r \<Rightarrow> TraceContext \<times> 'r" where
  "runWithTraceContext traceContext r = (traceContext, r)"

text \<open>
  A message handler is called with the message and the handler context. It does not
  receive the span, but the span is the active one while it runs, so it reaches it
  through the utilities above: what the span observes of a handler is, as for
  \<open>withSpan\<close>, the calls made on it and how the promise of the handler settles.
\<close>

type_synonym 'a MessageHandler =
  "ServiceBusReceivedMessage \<Rightarrow> MessageHandlerContext \<Rightarrow> span_call list \<times> 'a outcome"

text \<open>
  \<open>spanName?: string | ((message) => string)\<close> and
  \<open>additionalAttributes?: (message) => Record\<close>: the two functions are the caller's
  and may throw.
\<close>

datatype spanName_option =
  Name string | NameOf "ServiceBusReceivedMessage \<Rightarrow> thrown + string"

record service_bus_options =
  spanName :: "spanName_option option"
  additionalAttributes :: "(ServiceBusReceivedMessage \<Rightarrow> thrown + attributes) option"

text \<open>
  The attributes that the function handed to \<open>withSpan\<close> builds before it calls
  \<open>span.setAttributes\<close>. Every object is truthy, the invalid date too, so
  \<open>toISOString()\<close> is called whenever the message has an enqueued time.
\<close>

definition consumer_attributes ::
  "service_bus_options option \<Rightarrow> ServiceBusReceivedMessage \<Rightarrow> TraceContext
     \<Rightarrow> thrown + attributes" where
  "consumer_attributes options message traceContext =
     (let a = [(''messaging.system'', AStr ''servicebus''),
               (''messaging.operation'', AStr ''receive''),
               (''messaging.message.id'', AStr (or_else (messageId message) ''unknown''))];
          a = (if truthy (subject message)
               then put ''messaging.destination'' (AStr (the (subject message))) a else a);
          a = (if truthy (correlationId traceContext)
               then put ''correlation.id'' (AStr (the (correlationId traceContext))) a else a);
          a = (if truthy (eventId traceContext)
               then put ''event.id'' (AStr (the (eventId traceContext))) a else a);
          a = (if truthy (eventType traceContext)
               then put ''event.type'' (AStr (the (eventType traceContext))) a else a);
          a = (if truthy (userId traceContext)
               then put ''user.id'' (AStr (the (userId traceContext))) a else a)
      in case (case enqueuedTimeUtc message of
                 Some date \<Rightarrow>
                   (case toISOString date of
                      Inl error \<Rightarrow> Inl error
                    | Inr rendering \<Rightarrow>
                        Inr (put ''messaging.message.enqueued_time'' (AStr rendering) a))
               | None \<Rightarrow> Inr a) of
           Inl error \<Rightarrow> Inl error
         | Inr a \<Rightarrow>
             (let a = (case deliveryCount message of
                         Some n \<Rightarrow> put ''messaging.message.delivery_count'' (ANum n) a
                       | None \<Rightarrow> a)
              in case Option.bind options additionalAttributes of
                   Some f \<Rightarrow>
                     (case f message of
                        Inl error \<Rightarrow> Inl error
                      | Inr extra \<Rightarrow> Inr (assign a extra))
                 | None \<Rightarrow> Inr a))"

text \<open>
  The wrapped handler, applied to a received message. The result holds the trace
  context the handler ran under and the span, if the wrapper got as far as to install
  the one and start the other, how the promise of the wrapped handler settled, and the
  generator. A \<open>spanName\<close> function that throws rejects that promise before either
  exists; a throw while the attributes are built happens inside the span, before
  \<open>span.setAttributes\<close> and before the user handler is called.
\<close>

record 'a consumed =
  run_context :: "TraceContext option"
  run_span :: "span option"
  run_outcome :: "'a outcome"
  run_generator :: id_gen

definition withServiceBusTracing ::
  "'a MessageHandler \<Rightarrow> service_bus_options option \<Rightarrow> ServiceBusReceivedMessage \<Rightarrow> id_gen
     \<Rightarrow> 'a consumed" where
  "withServiceBusTracing handler options message g =
     (let messageProps = (case applicationProperties message of Some p \<Rightarrow> p | None \<Rightarrow> Map.empty);
          extracted = extractTraceFromServiceBusMessage messageProps;
          (traceContext, g') =
            (if \<not> truthy (correlationId extracted)
             then (let (generated, g1) = generateCorrelationId g
                   in (extracted\<lparr>correlationId := Some generated\<rparr>, g1))
             else (extracted, g))
      in case (case Option.bind options spanName of
                 Some (NameOf f) \<Rightarrow> f message
               | Some (Name n) \<Rightarrow>
                   Inr (if n \<noteq> [] then n
                        else ''consume '' @ or_else (eventType traceContext) ''message'')
               | None \<Rightarrow> Inr (''consume '' @ or_else (eventType traceContext) ''message'')) of
           Inl error \<Rightarrow>
             \<lparr>run_context = None, run_span = None, run_outcome = Threw error,
              run_generator = g'\<rparr>
         | Inr name \<Rightarrow>
             (let handlerContext =
                    \<lparr>correlationId = correlationId traceContext, traceId = traceId traceContext,
                     eventId = eventId traceContext, eventType = eventType traceContext,
                     userId = userId traceContext\<rparr>;
                  (active, ran_span, settled) =
                    runWithTraceContext traceContext
                      (withSpan name
                         (\<lambda>span. case consumer_attributes options message traceContext of
                                   Inl error \<Rightarrow> ([], Threw error)
                                 | Inr attrs \<Rightarrow>
                                     (let ran = handler message handlerContext
                                      in (SetAttributes attrs # fst ran, snd ran)))
                         (Some \<lparr>kind = Some CONSUMER, attributes = None\<rparr>))
              in \<lparr>run_context = Some active, run_span = Some ran_span,
                  run_outcome = settled, run_generator = g'\<rparr>))"

text \<open>
  The values the wrapped handler is run on below: a received message with given
  application properties and enqueued time, and a generator that returns
  \<open>generated-0\<close> and then \<open>generated-1\<close>.
\<close>

definition received ::
  "(string \<Rightarrow> string option) \<Rightarrow> js_date option \<Rightarrow> ServiceBusReceivedMessage" where
  "received props enqueued =
     \<lparr>body = ''{}'', applicationProperties = Some props, messageId = Some ''m-1'',
      subject = None, enqueuedTimeUtc = enqueued, deliveryCount = Some 1\<rparr>"

definition two_ids :: id_gen where
  "two_ids =
     \<lparr>ids = (\<lambda>k. (CHR ''g'', if k = 0 then ''enerated-0'' else ''enerated-1'')), drawn = 0\<rparr>"

section \<open>The W3C traceparent header\<close>

text \<open>\<open>String.prototype.split\<close> with a one-character separator.\<close>

fun split_on :: "char \<Rightarrow> string \<Rightarrow> string list" where
  "split_on d [] = [[]]"
| "split_on d (c # cs) =
     (if c = d then [] # split_on d cs
      else (case split_on d cs of
              f # fs \<Rightarrow> (c # f) # fs
            | [] \<Rightarrow> [[c]]))"

definition is_hex_digit :: "char \<Rightarrow> bool" where
  "is_hex_digit c = (c \<in> set ''0123456789abcdefABCDEF'')"

definition is_hex :: "string \<Rightarrow> bool" where
  "is_hex s = list_all is_hex_digit s"

text \<open>
  Modelled from the spec: \<open>extractTraceIdFromTraceparent\<close> (the spec's
  \<open>parseTraceparent\<close>) is in \<open>core/trace-context\<close>, which is not among the sources.
  The spec has it accept the format
  \<open>{2-hex version}-{32-hex trace-id}-{16-hex parent-id}-{2-hex flags}\<close> and return the
  trace id; it returns nothing when the header is absent, when it is malformed (a wrong
  number of fields, a malformed version) and when the trace id is the all-zero sentinel.
\<close>

definition extractTraceIdFromTraceparent :: "string option \<Rightarrow> string option" where
  "extractTraceIdFromTraceparent traceparent =
     (case traceparent of
        None \<Rightarrow> None
      | Some header \<Rightarrow>
          (let parts = split_on CHR ''-'' header
           in if length parts \<noteq> 4 then None
              else (let version = parts ! 0; trace_id = parts ! 1;
                        parent_id = parts ! 2; flags = parts ! 3
                    in if length version = 2 \<and> is_hex version
                          \<and> length trace_id = 32 \<and> is_hex trace_id
                          \<and> length parent_id = 16 \<and> is_hex parent_id
                          \<and> length flags = 2 \<and> is_hex flags
                          \<and> trace_id \<noteq> ''00000000000000000000000000000000''
                       then Some trace_id
                       else None)))"

section \<open>The Express middleware\<close>

text \<open>
  Of a request the middleware reads the headers (Node gives their names in lower
  case; a header is taken with a single value), the method (\<open>http_method\<close> here), the
  path, the path of the matched route if there is one (\<open>req.route?.path\<close>), the URL and
  the address of the client.
\<close>

record Request =
  headers :: "string \<Rightarrow> string option"
  http_method :: string
  path :: string
  route_path :: "string option"
  url :: string
  ip :: "string option"

text \<open>
  Of a response the middleware uses \<open>setHeader\<close>, recorded here call by call (what
  Node does with a header it is given is not part of the model), and the \<open>finish\<close>
  event. A listener of that event reads \<open>res.statusCode\<close> when it runs, so it is a
  function of the status code the response has at that moment.
\<close>

record Response =
  statusCode :: int
  setHeader_calls :: "(string \<times> string) list"
  finish_listeners :: "(int \<Rightarrow> tracer_state \<Rightarrow> tracer_state) list"

definition setHeader :: "string \<Rightarrow> string \<Rightarrow> Response \<Rightarrow> Response" where
  "setHeader name v res = res\<lparr>setHeader_calls := setHeader_calls res @ [(name, v)]\<rparr>"

definition on_finish :: "(int \<Rightarrow> tracer_state \<Rightarrow> tracer_state) \<Rightarrow> Response \<Rightarrow> Response" where
  "on_finish listener res = res\<lparr>finish_listeners := finish_listeners res @ [listener]\<rparr>"

text \<open>The response finishes: its \<open>finish\<close> listeners run in the order they were added.\<close>

definition emit_finish :: "Response \<Rightarrow> tracer_state \<Rightarrow> tracer_state" where
  "emit_finish res st = foldl (\<lambda>st' listener. listener (statusCode res) st') st (finish_listeners res)"

text \<open>
  \<open>core/trace-context\<close> is not among the sources. Three of its functions that the
  middleware calls are parameters of the model, so that what is proved of the middleware
  holds for every implementation of them: \<open>extractCorrelationId\<close>, which the
  middleware gives the request headers and nothing else, and \<open>setTraceContext\<close> and
  \<open>getCurrentTraceContext\<close>, which write and read a store \<open>'c\<close> of the module's own
  (the second is said to include the trace id of the active span, so it sees the tracer
  too).
\<close>

record 'c trace_context_module =
  extractCorrelationId :: "(string \<Rightarrow> string option) \<Rightarrow> string option"
  setTraceContext :: "TraceContext \<Rightarrow> 'c \<Rightarrow> 'c"
  getCurrentTraceContext :: "'c \<Rightarrow> tracer_state \<Rightarrow> TraceContext"

text \<open>
  The options. \<open>extractUserId\<close> and \<open>additionalAttributes\<close> are functions of the
  caller and may throw. \<open>shouldGenerateCorrelationId\<close> is the option
  \<open>generateCorrelationId\<close> under the name the middleware binds it to, and
  \<open>requestAttributes\<close> is its \<open>additionalAttributes\<close>; the two names of the source
  are taken above.
\<close>

record TracingMiddlewareOptions =
  correlationIdHeader :: "string option"
  shouldGenerateCorrelationId :: "bool option"
  addCorrelationIdToResponse :: "bool option"
  addTraceIdToResponse :: "bool option"
  extractUserId :: "(Request \<Rightarrow> thrown + string option) option"
  requestAttributes :: "(Request \<Rightarrow> thrown + attributes) option"

text \<open>A destructuring default: \<open>{ x = d } = options\<close>.\<close>

definition default_to :: "'a \<Rightarrow> 'a option \<Rightarrow> 'a" where
  "default_to d x = (case x of None \<Rightarrow> d | Some v \<Rightarrow> v)"

text \<open>
  What the middleware works on besides the request and the response, and how the
  request handler was left: by \<open>next()\<close>, its last statement, or by a throw of one of
  the two functions of the options.
\<close>

datatype exit_kind = Entered | PassedOn | Raised thrown

record 'c world =
  trace_store :: 'c
  tracer :: tracer_state
  generator :: id_gen
  exited :: exit_kind

text \<open>\<open>req.url.includes('?') ? req.url.split('?')[1] : ''\<close>\<close>

definition query_of :: "string \<Rightarrow> string" where
  "query_of u = (if CHR ''?'' \<in> set u then split_on CHR ''?'' u ! 1 else [])"

text \<open>A number in a template literal: decimal digits, with a sign when negative.\<close>

fun decimal :: "nat \<Rightarrow> string" where
  "decimal n =
     (if n < 10 then [''0123456789'' ! n]
      else decimal (n div 10) @ [''0123456789'' ! (n mod 10)])"

declare decimal.simps [simp del]

definition number_string :: "int \<Rightarrow> string" where
  "number_string i = (if i < 0 then CHR ''-'' # decimal (nat (- i)) else decimal (nat i))"

text \<open>The listener the middleware adds for the \<open>finish\<close> event of the response.\<close>

definition finish_listener :: "int \<Rightarrow> tracer_state \<Rightarrow> tracer_state" where
  "finish_listener status_code st =
     (let st1 = addSpanAttributes [(''http.response.status_code'', ANum status_code)] st
      in if status_code \<ge> 500
         then setSpanStatus ERROR (Some (''HTTP '' @ number_string status_code)) st1
         else if status_code \<ge> 400
         then setSpanStatus OK None st1
         else setSpanStatus OK None st1)"

definition request_attributes ::
  "TracingMiddlewareOptions \<Rightarrow> Request \<Rightarrow> string option \<Rightarrow> string \<Rightarrow> string option
     \<Rightarrow> thrown + attributes" where
  "request_attributes options req correlation request_id user =
     (let a = [(''http.request.method'', AStr (http_method req)),
               (''http.request.path'', AStr (path req)),
               (''http.request.route'', AStr (or_else (route_path req) (path req))),
               (''http.request.query'', AStr (query_of (url req)))];
          a = (if truthy correlation then put ''correlation.id'' (AStr (the correlation)) a else a);
          a = (if request_id \<noteq> [] then put ''request.id'' (AStr request_id) a else a);
          a = (if truthy user then put ''user.id'' (AStr (the user)) a else a);
          a = (if truthy (ip req) then put ''client.ip'' (AStr (the (ip req))) a else a);
          a = (if truthy (headers req ''user-agent'')
               then put ''user_agent.original'' (AStr (the (headers req ''user-agent''))) a else a)
      in case requestAttributes options of
           Some f \<Rightarrow>
             (case f req of
                Inl error \<Rightarrow> Inl error
              | Inr extra \<Rightarrow> Inr (assign a extra))
         | None \<Rightarrow> Inr a)"

text \<open>
  The request handler that \<open>createTracingMiddleware(options)\<close> returns, applied to a
  request and a response. A throw of \<open>extractUserId\<close> leaves the handler before the
  request id is generated; a throw of \<open>additionalAttributes\<close> leaves it after the
  headers are written and before the attributes reach the span, the listener is added
  and the request is handed on.
\<close>

definition createTracingMiddleware ::
  "'c trace_context_module \<Rightarrow> TracingMiddlewareOptions \<Rightarrow> Request \<Rightarrow> Response \<Rightarrow> 'c world
     \<Rightarrow> Response \<times> 'c world" where
  "createTracingMiddleware tc options req res w =
     (let header_name = default_to ''x-correlation-id'' (correlationIdHeader options);
          should_generate = default_to True (shouldGenerateCorrelationId options);
          add_correlation = default_to True (addCorrelationIdToResponse options);
          add_trace = default_to True (addTraceIdToResponse options);
          extracted = extractCorrelationId tc (headers req);
          (correlation, g1) =
            (if \<not> truthy extracted \<and> should_generate
             then (let (generated, g') = generateCorrelationId (generator w) in (Some generated, g'))
             else (extracted, generator w));
          trace = extractTraceIdFromTraceparent (headers req ''traceparent'')
      in case (case extractUserId options of Some f \<Rightarrow> f req | None \<Rightarrow> Inr None) of
           Inl error \<Rightarrow> (res, w\<lparr>generator := g1, exited := Raised error\<rparr>)
         | Inr user \<Rightarrow>
             (let (request_id, g2) = generateCorrelationId g1;
                  store1 = setTraceContext tc
                             \<lparr>correlationId = correlation, traceId = trace, eventId = None,
                              eventType = None, userId = user, spanId = None,
                              requestId = Some request_id\<rparr>
                             (trace_store w);
                  res1 = (if truthy correlation \<and> add_correlation
                          then setHeader header_name (the correlation) res else res);
                  res2 = setHeader ''x-request-id'' request_id res1;
                  current = getCurrentTraceContext tc store1 (tracer w);
                  res3 = (if truthy (traceId current) \<and> add_trace
                          then setHeader ''x-trace-id'' (the (traceId current)) res2 else res2)
              in case request_attributes options req correlation request_id user of
                   Inl error \<Rightarrow>
                     (res3, \<lparr>trace_store = store1, tracer = tracer w, generator = g2,
                             exited = Raised error\<rparr>)
                 | Inr spanAttributes \<Rightarrow>
                     (on_finish finish_listener res3,
                      \<lparr>trace_store = store1,
                       tracer = addSpanAttributes spanAttributes (tracer w),
                       generator = g2, exited = PassedOn\<rparr>)))"

subsection \<open>An instance of the trace-context module, and a request to run\<close>

text \<open>
  Modelled from the spec: \<open>setTraceContext\<close> is in \<open>core/trace-context\<close>, which is
  not among the sources. The spec has \<open>set(partial)\<close> merge the given fields into the
  identity that is active in the calling scope.
\<close>

definition merge_context :: "TraceContext \<Rightarrow> TraceContext \<Rightarrow> TraceContext" where
  "merge_context given stored =
     \<lparr>correlationId = (case correlationId given of Some v \<Rightarrow> Some v | None \<Rightarrow> correlationId stored),
      traceId = (case traceId given of Some v \<Rightarrow> Some v | None \<Rightarrow> traceId stored),
      eventId = (case eventId given of Some v \<Rightarrow> Some v | None \<Rightarrow> eventId stored),
      eventType = (case eventType given of Some v \<Rightarrow> Some v | None \<Rightarrow> eventType stored),
      userId = (case userId given of Some v \<Rightarrow> Some v | None \<Rightarrow> userId stored),
      spanId = (case spanId given of Some v \<Rightarrow> Some v | None \<Rightarrow> spanId stored),
      requestId = (case requestId given of Some v \<Rightarrow> Some v | None \<Rightarrow> requestId stored)\<rparr>"

text \<open>
  Modelled from the spec: \<open>extractCorrelationId\<close> and \<open>getCurrentTraceContext\<close> are
  in \<open>core/trace-context\<close>, which is not among the sources. The spec has the extraction
  read the correlation id from a configurable field of the carrier, \<open>x-correlation-id\<close>
  by default, and leave it unset when the field is absent; the middleware passes the
  headers and no field name, so the default applies. It has \<open>get()\<close> return the
  identity that is active.
\<close>

definition spec_trace_context :: "TraceContext trace_context_module" where
  "spec_trace_context =
     \<lparr>extractCorrelationId = (\<lambda>carrier. carrier ''x-correlation-id''),
      setTraceContext = merge_context,
      getCurrentTraceContext = (\<lambda>stored st. stored)\<rparr>"

text \<open>
  Modelled from the spec: the identity that \<open>get()\<close> returns when none was ever
  established has every field unset.
\<close>

definition empty_context :: TraceContext where
  "empty_context =
     \<lparr>correlationId = None, traceId = None, eventId = None, eventType = None,
      userId = None, spanId = None, requestId = None\<rparr>"

text \<open>
  The values the middleware is run on below: \<open>createTracingMiddleware()\<close> without
  options, a \<open>GET /users\<close> request with given headers, a response nothing has been
  written to, a state in which no span is active and one in which the span of the
  request is, and a world that starts with an empty trace context and the generator above.
\<close>

definition no_options :: TracingMiddlewareOptions where
  "no_options =
     \<lparr>correlationIdHeader = None, shouldGenerateCorrelationId = None,
      addCorrelationIdToResponse = None, addTraceIdToResponse = None,
      extractUserId = None, requestAttributes = None\<rparr>"

definition get_users :: "(string \<Rightarrow> string option) \<Rightarrow> Request" where
  "get_users hs =
     \<lparr>headers = hs, http_method = ''GET'', path = ''/users'', route_path = None,
      url = ''/users'', ip = None\<rparr>"

definition fresh_response :: Response where
  "fresh_response = \<lparr>statusCode = 200, setHeader_calls = [], finish_listeners = []\<rparr>"

definition no_span :: tracer_state where
  "no_span = \<lparr>active_span = None, other_spans = []\<rparr>"

definition request_span :: tracer_state where
  "request_span =
     \<lparr>active_span = Some (startActiveSpan ''GET /users'' (Some SERVER) None), other_spans = []\<rparr>"

definition start_world :: "TraceContext world" where
  "start_world =
     \<lparr>trace_store = empty_context, tracer = no_span,
      generator = two_ids, exited = Entered\<rparr>"

section \<open>Properties of the span utilities\<close>

lemma calls_invoke_all: "calls (invoke_all cs s) = calls s @ cs"
  unfolding invoke_all_def
  by (induction cs arbitrary: s) (simp_all add: invoke_def)

lemma invoke_all_started:
  "span_name (invoke_all cs s) = span_name s
   \<and> span_kind (invoke_all cs s) = span_kind s
   \<and> span_attributes (invoke_all cs s) = span_attributes s"
  unfolding invoke_all_def
  by (induction cs arbitrary: s) (simp_all add: invoke_def)

text \<open>
  What a span has received when \<open>withSpan\<close> is through with it: the calls of the
  function, then the calls of the block that ran, which depend only on how the promise
  of the function settled.
\<close>

lemma withSpan_settled_calls:
  assumes "fn (startActiveSpan n (Option.bind options kind) (Option.bind options attributes))
             = (fn_calls, settled)"
  shows "calls (fst (withSpan n fn options)) =
           fn_calls @ (case settled of
                         Returned result \<Rightarrow> [SetStatus OK None, End]
                       | Threw error \<Rightarrow>
                           [SetStatus ERROR (Some (error_status_message error)),
                            RecordException error None, End]
                       | Pending \<Rightarrow> [])"
    and "snd (withSpan n fn options) = settled"
  using assms
  by (simp_all add: withSpan_def Let_def invoke_def calls_invoke_all startActiveSpan_def
        split: outcome.splits)

lemma withSpan_started:
  "span_name (fst (withSpan n fn options)) = n
   \<and> span_kind (fst (withSpan n fn options)) = Option.bind options kind
   \<and> span_attributes (fst (withSpan n fn options)) = Option.bind options attributes"
  by (simp add: withSpan_def Let_def invoke_def invoke_all_started startActiveSpan_def
        split: outcome.splits prod.splits)

subsection \<open>Ending the span\<close>

text \<open>
  C1, as stated, fails on two kinds of function. The function receives the span itself,
  whose interface has \<open>end()\<close>: when it calls it and returns, the \<open>finally\<close> block
  calls it a second time. And when the promise of the function never settles, the
  \<open>finally\<close> block is never reached and \<open>end()\<close> is not called at all.
\<close>

theorem withSpan_end_count_counterexample:
  "end_count (fst (withSpan ''job'' (\<lambda>span. ([End], Returned ())) None)) = 2
   \<and> end_count (fst (withSpan ''job'' (\<lambda>span. ([], Pending :: unit outcome)) None)) = 0"
  by (simp add: withSpan_def Let_def invoke_def invoke_all_def end_count_def startActiveSpan_def)

text \<open>
  C1, amended: whenever the promise of the function settles, by a result or by a thrown
  value (a cancellation reaches \<open>withSpan\<close> only as a thrown value), \<open>withSpan\<close>
  itself calls \<open>end()\<close> exactly once, as its last call on the span and after every
  call of the function, so the span has received one \<open>end()\<close> more than the function
  made. While the promise is pending, \<open>withSpan\<close> makes no call on the span.
\<close>

theorem withSpan_ends_once_when_settled:
  assumes "fn (startActiveSpan n (Option.bind options kind) (Option.bind options attributes))
             = (fn_calls, settled)"
  shows "(settled \<noteq> Pending \<longrightarrow>
            (\<exists>own. calls (fst (withSpan n fn options)) = fn_calls @ own
                  \<and> count_list own End = 1 \<and> last own = End)
            \<and> end_count (fst (withSpan n fn options)) = count_list fn_calls End + 1)
       \<and> (settled = Pending \<longrightarrow> calls (fst (withSpan n fn options)) = fn_calls)"
proof (cases settled)
  case (Returned result)
  with withSpan_settled_calls(1)[where fn=fn and n=n and options=options, OF assms]
  have "calls (fst (withSpan n fn options)) = fn_calls @ [SetStatus OK None, End]"
    by simp
  then show ?thesis using Returned by (simp add: end_count_def)
next
  case (Threw error)
  with withSpan_settled_calls(1)[where fn=fn and n=n and options=options, OF assms]
  have "calls (fst (withSpan n fn options)) =
          fn_calls @ [SetStatus ERROR (Some (error_status_message error)),
                      RecordException error None, End]"
    by simp
  then show ?thesis using Threw by (simp add: end_count_def)
next
  case Pending
  with withSpan_settled_calls(1)[where fn=fn and n=n and options=options, OF assms]
  show ?thesis by simp
qed

theorem withSpan_ends_once_when_settled_witness:
  "end_count (fst (withSpan ''job''
      (\<lambda>span. ([SetAttribute ''rows'' (ANum 3)], Returned (3::nat))) None)) = 1
   \<and> last (calls (fst (withSpan ''job''
      (\<lambda>span. ([SetAttribute ''rows'' (ANum 3)], Returned (3::nat))) None))) = End"
  using withSpan_ends_once_when_settled
    [where fn="\<lambda>span. ([SetAttribute ''rows'' (ANum 3)], Returned (3::nat))"
       and n="''job''" and options=None
       and fn_calls="[SetAttribute ''rows'' (ANum 3)]" and settled="Returned 3"]
  by auto

subsection \<open>A function that throws\<close>

text \<open>
  C2: when the function throws an \<open>Error\<close>, \<open>withSpan\<close> sets the status \<open>ERROR\<close> with
  the message of the error, records the error as an exception, ends the span, and the
  caller gets the same error, with its name and message.
\<close>

theorem withSpan_rethrows_error:
  assumes "fn (startActiveSpan n (Option.bind options kind) (Option.bind options attributes))
             = (fn_calls, Threw (ErrorInstance name message))"
  shows "calls (fst (withSpan n fn options)) =
           fn_calls @ [SetStatus ERROR (Some message),
                       RecordException (ErrorInstance name message) None, End]
       \<and> span_status (fst (withSpan n fn options)) = (ERROR, Some message)
       \<and> snd (withSpan n fn options) = Threw (ErrorInstance name message)"
  using withSpan_settled_calls[where fn=fn and n=n and options=options, OF assms]
  by (simp add: span_status_def)

theorem withSpan_rethrows_error_witness:
  "withSpan ''charge''
     (\<lambda>span. ([AddEvent ''started'' None], Threw (ErrorInstance ''Error'' ''db down'') :: nat outcome))
     None
     = (\<lparr>span_name = ''charge'', span_kind = None, span_attributes = None,
         calls = [AddEvent ''started'' None, SetStatus ERROR (Some ''db down''),
                  RecordException (ErrorInstance ''Error'' ''db down'') None, End]\<rparr>,
        Threw (ErrorInstance ''Error'' ''db down''))
   \<and> span_status (fst (withSpan ''charge''
        (\<lambda>span. ([AddEvent ''started'' None], Threw (ErrorInstance ''Error'' ''db down'') :: nat outcome))
        None))
       = (ERROR, Some ''db down'')"
  using withSpan_rethrows_error
    [where fn="\<lambda>span. ([AddEvent ''started'' None], Threw (ErrorInstance ''Error'' ''db down'') :: nat outcome)"
       and n="''charge''" and options=None and fn_calls="[AddEvent ''started'' None]"
       and name="''Error''" and message="''db down''"]
  by (simp add: withSpan_def Let_def invoke_def invoke_all_def startActiveSpan_def)

text \<open>
  C9: when the function throws a value that is not an \<open>Error\<close>, the status is
  \<open>ERROR\<close> with the fixed message \<open>Unknown error\<close>, the thrown value is recorded as
  an exception, and the caller gets the thrown value itself.
\<close>

theorem withSpan_rethrows_non_error:
  assumes "fn (startActiveSpan n (Option.bind options kind) (Option.bind options attributes))
             = (fn_calls, Threw (NonError v))"
  shows "calls (fst (withSpan n fn options)) =
           fn_calls @ [SetStatus ERROR (Some ''Unknown error''),
                       RecordException (NonError v) None, End]
       \<and> span_status (fst (withSpan n fn options)) = (ERROR, Some ''Unknown error'')
       \<and> snd (withSpan n fn options) = Threw (NonError v)"
  using withSpan_settled_calls[where fn=fn and n=n and options=options, OF assms]
  by (simp add: span_status_def)

theorem withSpan_rethrows_non_error_witness:
  "span_status (fst (withSpan ''charge''
      (\<lambda>span. ([], Threw (NonError ''timeout'') :: nat outcome)) None))
     = (ERROR, Some ''Unknown error'')
   \<and> snd (withSpan ''charge''
      (\<lambda>span. ([], Threw (NonError ''timeout'') :: nat outcome)) None)
     = Threw (NonError ''timeout'')"
  using withSpan_rethrows_non_error
    [where fn="\<lambda>span. ([], Threw (NonError ''timeout'') :: nat outcome)"
       and n="''charge''" and options=None and fn_calls="[]" and v="''timeout''"]
  by simp

subsection \<open>A function that returns\<close>

text \<open>
  C3, as stated, fails: a function that sets the status \<open>ERROR\<close> itself and then
  returns finds it replaced. \<open>withSpan\<close> sets \<open>OK\<close> after every normal return and
  does not look at the status the span has.
\<close>

theorem withSpan_status_counterexample:
  "span_status (fst (withSpan ''import''
      (\<lambda>span. ([SetStatus ERROR (Some ''3 rows rejected'')], Returned ())) None))
     = (OK, None)
   \<and> span_status (fst (withSpan ''import''
      (\<lambda>span. ([SetStatus ERROR (Some ''3 rows rejected'')], Returned ())) None))
     \<noteq> (ERROR, Some ''3 rows rejected'')"
  by (simp add: withSpan_def Let_def invoke_def invoke_all_def span_status_def startActiveSpan_def)

text \<open>
  C3, amended: when the function returns normally, \<open>withSpan\<close> calls
  \<open>setStatus\<close> with \<open>OK\<close> and no message after all calls of the function, and then
  ends the span. The status of the span is \<open>OK\<close> whatever status the function had set,
  and the caller gets the result of the function.
\<close>

theorem withSpan_sets_ok_on_return:
  assumes "fn (startActiveSpan n (Option.bind options kind) (Option.bind options attributes))
             = (fn_calls, Returned result)"
  shows "calls (fst (withSpan n fn options)) = fn_calls @ [SetStatus OK None, End]
       \<and> span_status (fst (withSpan n fn options)) = (OK, None)
       \<and> snd (withSpan n fn options) = Returned result"
  using withSpan_settled_calls[where fn=fn and n=n and options=options, OF assms]
  by (simp add: span_status_def)

theorem withSpan_sets_ok_on_return_witness:
  "calls (fst (withSpan ''import''
      (\<lambda>span. ([SetStatus ERROR (Some ''3 rows rejected'')], Returned (0::nat))) None))
     = [SetStatus ERROR (Some ''3 rows rejected''), SetStatus OK None, End]
   \<and> snd (withSpan ''import''
      (\<lambda>span. ([SetStatus ERROR (Some ''3 rows rejected'')], Returned (0::nat))) None)
     = Returned 0"
  using withSpan_sets_ok_on_return
    [where fn="\<lambda>span. ([SetStatus ERROR (Some ''3 rows rejected'')], Returned (0::nat))"
       and n="''import''" and options=None
       and fn_calls="[SetStatus ERROR (Some ''3 rows rejected'')]" and result=0]
  by simp

subsection \<open>No active span\<close>

text \<open>
  C10: when no span is active, \<open>addSpanAttribute\<close>, \<open>addSpanAttributes\<close>,
  \<open>addSpanEvent\<close>, \<open>recordException\<close> and \<open>setSpanStatus\<close> return and leave every
  span as it was. None of the five has a branch that throws: each is a total function
  on the state of the tracer.
\<close>

theorem no_active_span_no_effect:
  assumes "getCurrentSpan st = None"
  shows "addSpanAttribute key v st = st
       \<and> addSpanAttributes attrs st = st
       \<and> addSpanEvent name event_attrs st = st
       \<and> recordException error error_attrs st = st
       \<and> setSpanStatus status message st = st"
  using assms
  by (simp add: addSpanAttribute_def addSpanAttributes_def addSpanEvent_def
        recordException_def setSpanStatus_def)

theorem no_active_span_no_effect_witness:
  "setSpanStatus ERROR (Some ''late'')
     \<lparr>active_span = None, other_spans = [startActiveSpan ''done'' None None]\<rparr>
     = \<lparr>active_span = None, other_spans = [startActiveSpan ''done'' None None]\<rparr>
   \<and> addSpanAttribute ''user.id'' (AStr ''u1'')
     \<lparr>active_span = None, other_spans = [startActiveSpan ''done'' None None]\<rparr>
     = \<lparr>active_span = None, other_spans = [startActiveSpan ''done'' None None]\<rparr>"
  using no_active_span_no_effect
    [where st="\<lparr>active_span = None, other_spans = [startActiveSpan ''done'' None None]\<rparr>"
       and key="''user.id''" and v="AStr ''u1''" and status=ERROR and message="Some ''late''"]
  by (simp add: getCurrentSpan_def)

section \<open>Properties of the Service Bus adapter\<close>

text \<open>An id of the generator is never empty.\<close>

lemma nth_id_not_empty: "nth_id g n \<noteq> []"
  by (simp add: nth_id_def)

text \<open>
  Building the attributes throws exactly when the enqueued time of the message is an
  invalid date or the \<open>additionalAttributes\<close> function of the options throws.
\<close>

lemma consumer_attributes_invalid_date:
  "enqueuedTimeUtc message = Some InvalidDate \<Longrightarrow>
     consumer_attributes options message traceContext
       = Inl (ErrorInstance ''RangeError'' ''Invalid time value'')"
  by (simp add: consumer_attributes_def Let_def)

lemma consumer_attributes_returns:
  assumes "enqueuedTimeUtc message \<noteq> Some InvalidDate"
      and "\<forall>f. Option.bind options additionalAttributes = Some f \<longrightarrow> (\<exists>a. f message = Inr a)"
  shows "\<exists>attrs. consumer_attributes options message traceContext = Inr attrs"
proof -
  have date: "enqueuedTimeUtc message = None \<or> (\<exists>r. enqueuedTimeUtc message = Some (ValidDate r))"
    using assms(1) by (cases "enqueuedTimeUtc message") (auto intro: js_date.exhaust)
  show ?thesis
  proof (cases "Option.bind options additionalAttributes")
    case None
    with date show ?thesis
      by (auto simp add: consumer_attributes_def Let_def)
  next
    case (Some f)
    with assms(2) obtain a where "f message = Inr a" by blast
    with Some date show ?thesis
      by (auto simp add: consumer_attributes_def Let_def)
  qed
qed

text \<open>
  The wrapped handler in one piece, for a message without a correlation id: when the
  span name is determined, the context it installs, the span it produces and the outcome
  it hands on; when the \<open>spanName\<close> function throws, the rejection and nothing else.
\<close>

lemma withServiceBusTracing_named:
  assumes "props = (case applicationProperties message of Some p \<Rightarrow> p | None \<Rightarrow> Map.empty)"
      and "\<not> truthy (props ''correlationId'')"
      and "(case Option.bind options spanName of
              Some (NameOf f) \<Rightarrow> f message
            | Some (Name n) \<Rightarrow>
                Inr (if n \<noteq> [] then n
                     else ''consume '' @ or_else (props ''eventType'') ''message'')
            | None \<Rightarrow> Inr (''consume '' @ or_else (props ''eventType'') ''message'')) = Inr name"
  shows "withServiceBusTracing handler options message g =
     (let traceContext =
            \<lparr>correlationId = Some (nth_id g (drawn g)), traceId = props ''traceId'',
             eventId = props ''eventId'', eventType = props ''eventType'',
             userId = props ''userId'', spanId = None, requestId = None\<rparr>;
          built = consumer_attributes options message traceContext;
          ran = handler message
                  \<lparr>correlationId = Some (nth_id g (drawn g)), traceId = props ''traceId'',
                   eventId = props ''eventId'', eventType = props ''eventType'',
                   userId = props ''userId''\<rparr>
      in \<lparr>run_context = Some traceContext,
          run_span = Some
            \<lparr>span_name = name, span_kind = Some CONSUMER, span_attributes = None,
             calls = (case built of
                        Inl error \<Rightarrow>
                          [SetStatus ERROR (Some (error_status_message error)),
                           RecordException error None, End]
                      | Inr attrs \<Rightarrow>
                          SetAttributes attrs # fst ran
                          @ (case snd ran of
                               Returned result \<Rightarrow> [SetStatus OK None, End]
                             | Threw error \<Rightarrow>
                                 [SetStatus ERROR (Some (error_status_message error)),
                                  RecordException error None, End]
                             | Pending \<Rightarrow> []))\<rparr>,
          run_outcome = (case built of Inl error \<Rightarrow> Threw error | Inr attrs \<Rightarrow> snd ran),
          run_generator = g\<lparr>drawn := Suc (drawn g)\<rparr>\<rparr>)"
proof -
  have ctx: "extractTraceFromServiceBusMessage props\<lparr>correlationId := Some (nth_id g (drawn g))\<rparr>
        = \<lparr>correlationId = Some (nth_id g (drawn g)), traceId = props ''traceId'',
             eventId = props ''eventId'', eventType = props ''eventType'',
             userId = props ''userId'', spanId = None, requestId = None\<rparr>"
    by (simp add: extractTraceFromServiceBusMessage_def)
  have fresh: "\<not> truthy (correlationId (extractTraceFromServiceBusMessage props))"
    using assms(2) by (simp add: extractTraceFromServiceBusMessage_def)
  have name: "(case Option.bind options spanName of
              Some (NameOf f) \<Rightarrow> f message
            | Some (Name n) \<Rightarrow>
                Inr (if n \<noteq> [] then n
                     else ''consume '' @ or_else
                       (eventType \<lparr>correlationId = Some (nth_id g (drawn g)), traceId = props ''traceId'',
                          eventId = props ''eventId'', eventType = props ''eventType'',
                          userId = props ''userId'', spanId = None, requestId = None\<rparr>) ''message'')
            | None \<Rightarrow> Inr (''consume '' @ or_else
                       (eventType \<lparr>correlationId = Some (nth_id g (drawn g)), traceId = props ''traceId'',
                          eventId = props ''eventId'', eventType = props ''eventType'',
                          userId = props ''userId'', spanId = None, requestId = None\<rparr>) ''message''))
           = Inr name"
  proof -
    have et: "eventType \<lparr>correlationId = Some (nth_id g (drawn g)), traceId = props ''traceId'',
                          eventId = props ''eventId'', eventType = props ''eventType'',
                          userId = props ''userId'', spanId = None, requestId = None\<rparr>
                = props ''eventType''"
      by simp
    show ?thesis unfolding et by (rule assms(3))
  qed
  show ?thesis
  proof (cases "consumer_attributes options message
                  \<lparr>correlationId = Some (nth_id g (drawn g)), traceId = props ''traceId'',
                   eventId = props ''eventId'', eventType = props ''eventType'',
                   userId = props ''userId'', spanId = None, requestId = None\<rparr>")
    case (Inl error)
    show ?thesis
      unfolding withServiceBusTracing_def assms(1)[symmetric]
      using fresh
      by (simp add: Let_def generateCorrelationId_def ctx name Inl runWithTraceContext_def
            withSpan_def startActiveSpan_def invoke_def invoke_all_def)
  next
    case (Inr attrs)
    show ?thesis
      unfolding withServiceBusTracing_def assms(1)[symmetric]
      using fresh
      by (cases "snd (handler message
                  \<lparr>correlationId = Some (nth_id g (drawn g)), traceId = props ''traceId'',
                   eventId = props ''eventId'', eventType = props ''eventType'',
                   userId = props ''userId''\<rparr>)")
         (simp_all add: Let_def generateCorrelationId_def ctx name Inr runWithTraceContext_def
            withSpan_def startActiveSpan_def invoke_def calls_invoke_all invoke_all_started
            span.equality)
  qed
qed

lemma withServiceBusTracing_unnamed:
  assumes "props = (case applicationProperties message of Some p \<Rightarrow> p | None \<Rightarrow> Map.empty)"
      and "\<not> truthy (props ''correlationId'')"
      and "(case Option.bind options spanName of
              Some (NameOf f) \<Rightarrow> f message
            | Some (Name n) \<Rightarrow>
                Inr (if n \<noteq> [] then n
                     else ''consume '' @ or_else (props ''eventType'') ''message'')
            | None \<Rightarrow> Inr (''consume '' @ or_else (props ''eventType'') ''message'')) = Inl error"
  shows "withServiceBusTracing handler options message g =
           \<lparr>run_context = None, run_span = None, run_outcome = Threw error,
            run_generator = g\<lparr>drawn := Suc (drawn g)\<rparr>\<rparr>"
proof -
  have fresh: "\<not> truthy (correlationId (extractTraceFromServiceBusMessage props))"
    using assms(2) by (simp add: extractTraceFromServiceBusMessage_def)
  obtain f where f: "Option.bind options spanName = Some (NameOf f)" "f message = Inl error"
    using assms(3) by (auto split: option.splits spanName_option.splits)
  show ?thesis
    unfolding withServiceBusTracing_def assms(1)[symmetric]
    using fresh f
    by (simp add: Let_def generateCorrelationId_def)
qed

lemma consumer_attributes_returns_iff:
  "(\<exists>attrs. consumer_attributes options message traceContext = Inr attrs)
     \<longleftrightarrow> enqueuedTimeUtc message \<noteq> Some InvalidDate
       \<and> (\<forall>f. Option.bind options additionalAttributes = Some f \<longrightarrow> (\<exists>a. f message = Inr a))"
proof
  assume returns: "\<exists>attrs. consumer_attributes options message traceContext = Inr attrs"
  have "enqueuedTimeUtc message \<noteq> Some InvalidDate"
    using returns consumer_attributes_invalid_date[of message options traceContext] by auto
  moreover have "\<forall>f. Option.bind options additionalAttributes = Some f \<longrightarrow> (\<exists>a. f message = Inr a)"
    using returns
    by (auto simp add: consumer_attributes_def Let_def split: option.splits sum.splits)
  ultimately show "enqueuedTimeUtc message \<noteq> Some InvalidDate
       \<and> (\<forall>f. Option.bind options additionalAttributes = Some f \<longrightarrow> (\<exists>a. f message = Inr a))"
    by simp
next
  assume "enqueuedTimeUtc message \<noteq> Some InvalidDate
       \<and> (\<forall>f. Option.bind options additionalAttributes = Some f \<longrightarrow> (\<exists>a. f message = Inr a))"
  then show "\<exists>attrs. consumer_attributes options message traceContext = Inr attrs"
    using consumer_attributes_returns by blast
qed

text \<open>
  C4, as stated, fails in two ways. On the span name, for a message whose \<open>eventType\<close>
  property is present and is the empty string: the default name is built from
  \<open>traceContext.eventType || 'message'\<close>, which takes an empty string for a missing
  one, so the span is named \<open>consume message\<close> and not \<open>consume \<close> followed by the
  event type. On running the handler, for a message whose \<open>enqueuedTimeUtc\<close> is an
  invalid date: \<open>toISOString()\<close> throws a \<open>RangeError\<close> while the attributes are
  built, inside the span and before the user handler is called, so the span holds the
  error and the closing calls of \<open>withSpan\<close> and none of the handler's, and the wrapped
  handler rejects with the \<open>RangeError\<close>.
\<close>

theorem consume_counterexample:
  "run_span (withServiceBusTracing
      (\<lambda>message handlerContext. ([], Returned ()))
      None (received [''eventType'' \<mapsto> ''''] None) two_ids)
     = Some \<lparr>span_name = ''consume message'', span_kind = Some CONSUMER, span_attributes = None,
              calls = [SetAttributes [(''messaging.system'', AStr ''servicebus''),
                                      (''messaging.operation'', AStr ''receive''),
                                      (''messaging.message.id'', AStr ''m-1''),
                                      (''correlation.id'', AStr ''generated-0''),
                                      (''messaging.message.delivery_count'', ANum 1)],
                       SetStatus OK None, End]\<rparr>
   \<and> ''consume message'' \<noteq> ''consume '' @ ''''
   \<and> withServiceBusTracing
      (\<lambda>message handlerContext. ([AddEvent ''handled'' None], Returned ()))
      None (received [''eventType'' \<mapsto> ''user.created''] (Some InvalidDate)) two_ids
     = \<lparr>run_context = Some \<lparr>correlationId = Some ''generated-0'', traceId = None, eventId = None,
                             eventType = Some ''user.created'', userId = None, spanId = None,
                             requestId = None\<rparr>,
        run_span = Some \<lparr>span_name = ''consume user.created'', span_kind = Some CONSUMER,
                         span_attributes = None,
                         calls = [SetStatus ERROR (Some ''Invalid time value''),
                                  RecordException (ErrorInstance ''RangeError'' ''Invalid time value'') None,
                                  End]\<rparr>,
        run_outcome = Threw (ErrorInstance ''RangeError'' ''Invalid time value''),
        run_generator = two_ids\<lparr>drawn := 1\<rparr>\<rparr>"
proof -
  have p1: "[''eventType'' \<mapsto> ''''] = (case applicationProperties (received [''eventType'' \<mapsto> ''''] None)
              of Some p \<Rightarrow> p | None \<Rightarrow> Map.empty)"
    by (simp add: received_def)
  have p2: "[''eventType'' \<mapsto> ''user.created'']
              = (case applicationProperties (received [''eventType'' \<mapsto> ''user.created''] (Some InvalidDate))
              of Some p \<Rightarrow> p | None \<Rightarrow> Map.empty)"
    by (simp add: received_def)
  have a: "run_span (withServiceBusTracing
      (\<lambda>message handlerContext. ([], Returned ()))
      None (received [''eventType'' \<mapsto> ''''] None) two_ids)
     = Some \<lparr>span_name = ''consume message'', span_kind = Some CONSUMER, span_attributes = None,
              calls = [SetAttributes [(''messaging.system'', AStr ''servicebus''),
                                      (''messaging.operation'', AStr ''receive''),
                                      (''messaging.message.id'', AStr ''m-1''),
                                      (''correlation.id'', AStr ''generated-0''),
                                      (''messaging.message.delivery_count'', ANum 1)],
                       SetStatus OK None, End]\<rparr>"
    by (subst withServiceBusTracing_named[OF p1, where name="''consume message''"])
       (simp_all add: truthy_def or_else_def Let_def consumer_attributes_def received_def
          two_ids_def nth_id_def)
  have b: "withServiceBusTracing
      (\<lambda>message handlerContext. ([AddEvent ''handled'' None], Returned ()))
      None (received [''eventType'' \<mapsto> ''user.created''] (Some InvalidDate)) two_ids
     = \<lparr>run_context = Some \<lparr>correlationId = Some ''generated-0'', traceId = None, eventId = None,
                             eventType = Some ''user.created'', userId = None, spanId = None,
                             requestId = None\<rparr>,
        run_span = Some \<lparr>span_name = ''consume user.created'', span_kind = Some CONSUMER,
                         span_attributes = None,
                         calls = [SetStatus ERROR (Some ''Invalid time value''),
                                  RecordException (ErrorInstance ''RangeError'' ''Invalid time value'') None,
                                  End]\<rparr>,
        run_outcome = Threw (ErrorInstance ''RangeError'' ''Invalid time value''),
        run_generator = two_ids\<lparr>drawn := 1\<rparr>\<rparr>"
    by (subst withServiceBusTracing_named[OF p2, where name="''consume user.created''"])
       (simp_all add: truthy_def or_else_def Let_def consumer_attributes_def received_def
          two_ids_def nth_id_def)
  from a b show ?thesis by simp
qed

text \<open>
  C4, amended: for a received message whose application properties hold no
  \<open>correlationId\<close>, the wrapped handler draws a new id from the generator, and that id
  is not empty. The span name is the result of the \<open>spanName\<close> function, the
  \<open>spanName\<close> string when it is not empty, and otherwise \<open>consume \<close> followed by the
  event type when that is present and not empty, \<open>consume message\<close> when it is not.
  When the name is determined, the trace context with the new id is installed and a span
  of that name and of kind \<open>CONSUMER\<close> is started. When the attributes can be built,
  which is when \<open>enqueuedTimeUtc\<close> is absent or a valid date and
  \<open>additionalAttributes\<close>, if given, returns, the user handler is called with a handler
  context that holds the new id and the other extracted fields, and it runs inside the
  span: the span receives the attributes, then the handler's calls, then the closing
  calls of \<open>withSpan\<close>, and the outcome is the handler's. When the attributes cannot be
  built, the span receives the error and is ended, the handler is not called and the
  outcome is the error. When the \<open>spanName\<close> function throws, no context is installed,
  no span is started and the outcome is what it threw.
\<close>

theorem withServiceBusTracing_without_correlation_id:
  assumes props: "props = (case applicationProperties message of Some p \<Rightarrow> p | None \<Rightarrow> Map.empty)"
      and absent: "props ''correlationId'' = None"
  shows "let generated = nth_id g (drawn g);
             traceContext = \<lparr>correlationId = Some generated, traceId = props ''traceId'',
                             eventId = props ''eventId'', eventType = props ''eventType'',
                             userId = props ''userId'', spanId = None, requestId = None\<rparr>;
             handlerContext = \<lparr>correlationId = Some generated, traceId = props ''traceId'',
                               eventId = props ''eventId'', eventType = props ''eventType'',
                               userId = props ''userId''\<rparr>;
             ran = handler message handlerContext;
             run = withServiceBusTracing handler options message g;
             default_name = (case props ''eventType'' of
                               Some t \<Rightarrow> if t \<noteq> [] then ''consume '' @ t else ''consume message''
                             | None \<Rightarrow> ''consume message'');
             chosen = (case Option.bind options spanName of
                         Some (NameOf f) \<Rightarrow> f message
                       | Some (Name fixed) \<Rightarrow> Inr (if fixed \<noteq> [] then fixed else default_name)
                       | None \<Rightarrow> Inr default_name);
             built = consumer_attributes options message traceContext
         in generated \<noteq> []
          \<and> drawn (run_generator run) = Suc (drawn g)
          \<and> ((\<exists>attrs. built = Inr attrs)
                \<longleftrightarrow> enqueuedTimeUtc message \<noteq> Some InvalidDate
                  \<and> (\<forall>f. Option.bind options additionalAttributes = Some f
                         \<longrightarrow> (\<exists>extra. f message = Inr extra)))
          \<and> (case chosen of
                Inl error \<Rightarrow>
                  run_context run = None \<and> run_span run = None \<and> run_outcome run = Threw error
              | Inr name \<Rightarrow>
                  run_context run = Some traceContext
                \<and> (\<exists>s. run_span run = Some s
                      \<and> span_name s = name
                      \<and> span_kind s = Some CONSUMER
                      \<and> (case built of
                            Inl error \<Rightarrow>
                              calls s = [SetStatus ERROR (Some (error_status_message error)),
                                         RecordException error None, End]
                            \<and> run_outcome run = Threw error
                          | Inr attrs \<Rightarrow>
                              calls s = SetAttributes attrs # fst ran
                                @ (case snd ran of
                                     Returned result \<Rightarrow> [SetStatus OK None, End]
                                   | Threw error \<Rightarrow>
                                       [SetStatus ERROR (Some (error_status_message error)),
                                        RecordException error None, End]
                                   | Pending \<Rightarrow> [])
                            \<and> run_outcome run = snd ran)))"
proof -
  define traceContext where
    "traceContext = \<lparr>correlationId = Some (nth_id g (drawn g)), traceId = props ''traceId'',
                      eventId = props ''eventId'', eventType = props ''eventType'',
                      userId = props ''userId'', spanId = None, requestId = None\<rparr>"
  define ran where
    "ran = handler message \<lparr>correlationId = Some (nth_id g (drawn g)), traceId = props ''traceId'',
                             eventId = props ''eventId'', eventType = props ''eventType'',
                             userId = props ''userId''\<rparr>"
  define chosen where
    "chosen = (case Option.bind options spanName of
              Some (NameOf f) \<Rightarrow> f message
            | Some (Name n) \<Rightarrow>
                Inr (if n \<noteq> [] then n
                     else ''consume '' @ or_else (props ''eventType'') ''message'')
            | None \<Rightarrow> Inr (''consume '' @ or_else (props ''eventType'') ''message''))"
  have default_name:
    "(case props ''eventType'' of
        Some t \<Rightarrow> if t \<noteq> [] then ''consume '' @ t else ''consume message''
      | None \<Rightarrow> ''consume message'')
       = ''consume '' @ or_else (props ''eventType'') ''message''"
    by (simp add: or_else_def split: option.splits)
  have fresh: "\<not> truthy (props ''correlationId'')"
    using absent by (simp add: truthy_def)
  have run: "case chosen of
                Inl error \<Rightarrow>
                  run_context (withServiceBusTracing handler options message g) = None
                \<and> run_span (withServiceBusTracing handler options message g) = None
                \<and> run_outcome (withServiceBusTracing handler options message g) = Threw error
                \<and> drawn (run_generator (withServiceBusTracing handler options message g)) = Suc (drawn g)
              | Inr name \<Rightarrow>
                  run_context (withServiceBusTracing handler options message g) = Some traceContext
                \<and> drawn (run_generator (withServiceBusTracing handler options message g)) = Suc (drawn g)
                \<and> (\<exists>s. run_span (withServiceBusTracing handler options message g) = Some s
                      \<and> span_name s = name
                      \<and> span_kind s = Some CONSUMER
                      \<and> (case consumer_attributes options message traceContext of
                            Inl error \<Rightarrow>
                              calls s = [SetStatus ERROR (Some (error_status_message error)),
                                         RecordException error None, End]
                            \<and> run_outcome (withServiceBusTracing handler options message g) = Threw error
                          | Inr attrs \<Rightarrow>
                              calls s = SetAttributes attrs # fst ran
                                @ (case snd ran of
                                     Returned result \<Rightarrow> [SetStatus OK None, End]
                                   | Threw error \<Rightarrow>
                                       [SetStatus ERROR (Some (error_status_message error)),
                                        RecordException error None, End]
                                   | Pending \<Rightarrow> [])
                            \<and> run_outcome (withServiceBusTracing handler options message g) = snd ran))"
  proof (cases chosen)
    case (Inl error)
    show ?thesis
      unfolding Inl sum.case
        withServiceBusTracing_unnamed[OF props fresh Inl[unfolded chosen_def]]
      by simp
  next
    case (Inr name)
    show ?thesis
      unfolding Inr sum.case
        withServiceBusTracing_named[OF props fresh Inr[unfolded chosen_def]] Let_def
        traceContext_def[symmetric] ran_def[symmetric]
      by (cases "consumer_attributes options message traceContext") simp_all
  qed
  show ?thesis
    unfolding Let_def default_name traceContext_def[symmetric] ran_def[symmetric]
      chosen_def[symmetric] consumer_attributes_returns_iff
    using run
    by (cases chosen) (simp_all add: nth_id_not_empty)
qed

theorem withServiceBusTracing_without_correlation_id_witness:
  "run_context (withServiceBusTracing
      (\<lambda>message handlerContext.
         ([AddEvent ''handled'' None],
          if correlationId handlerContext = Some ''generated-0''
          then Threw (ErrorInstance ''Error'' ''db down'') else Returned ()))
      None
      (received [''eventType'' \<mapsto> ''user.created''] (Some (ValidDate ''2024-05-01T10:00:00.000Z'')))
      two_ids)
     = Some \<lparr>correlationId = Some ''generated-0'', traceId = None, eventId = None,
              eventType = Some ''user.created'', userId = None, spanId = None,
              requestId = None\<rparr>
   \<and> map_option span_name (run_span (withServiceBusTracing
      (\<lambda>message handlerContext.
         ([AddEvent ''handled'' None],
          if correlationId handlerContext = Some ''generated-0''
          then Threw (ErrorInstance ''Error'' ''db down'') else Returned ()))
      None
      (received [''eventType'' \<mapsto> ''user.created''] (Some (ValidDate ''2024-05-01T10:00:00.000Z'')))
      two_ids)) = Some ''consume user.created''
   \<and> map_option span_kind (run_span (withServiceBusTracing
      (\<lambda>message handlerContext.
         ([AddEvent ''handled'' None],
          if correlationId handlerContext = Some ''generated-0''
          then Threw (ErrorInstance ''Error'' ''db down'') else Returned ()))
      None
      (received [''eventType'' \<mapsto> ''user.created''] (Some (ValidDate ''2024-05-01T10:00:00.000Z'')))
      two_ids)) = Some (Some CONSUMER)
   \<and> map_option calls (run_span (withServiceBusTracing
      (\<lambda>message handlerContext.
         ([AddEvent ''handled'' None],
          if correlationId handlerContext = Some ''generated-0''
          then Threw (ErrorInstance ''Error'' ''db down'') else Returned ()))
      None
      (received [''eventType'' \<mapsto> ''user.created''] (Some (ValidDate ''2024-05-01T10:00:00.000Z'')))
      two_ids))
     = Some [SetAttributes [(''messaging.system'', AStr ''servicebus''),
                            (''messaging.operation'', AStr ''receive''),
                            (''messaging.message.id'', AStr ''m-1''),
                            (''correlation.id'', AStr ''generated-0''),
                            (''event.type'', AStr ''user.created''),
                            (''messaging.message.enqueued_time'',
                             AStr ''2024-05-01T10:00:00.000Z''),
                            (''messaging.message.delivery_count'', ANum 1)],
             AddEvent ''handled'' None,
             SetStatus ERROR (Some ''db down''),
             RecordException (ErrorInstance ''Error'' ''db down'') None,
             End]
   \<and> run_outcome (withServiceBusTracing
      (\<lambda>message handlerContext.
         ([AddEvent ''handled'' None],
          if correlationId handlerContext = Some ''generated-0''
          then Threw (ErrorInstance ''Error'' ''db down'') else Returned ()))
      None
      (received [''eventType'' \<mapsto> ''user.created''] (Some (ValidDate ''2024-05-01T10:00:00.000Z'')))
      two_ids)
     = Threw (ErrorInstance ''Error'' ''db down'')"
  using withServiceBusTracing_without_correlation_id
    [where props="[''eventType'' \<mapsto> ''user.created'']"
       and message="received [''eventType'' \<mapsto> ''user.created'']
                      (Some (ValidDate ''2024-05-01T10:00:00.000Z''))"
       and g=two_ids
       and handler="\<lambda>message handlerContext.
         ([AddEvent ''handled'' None],
          if correlationId handlerContext = Some ''generated-0''
          then Threw (ErrorInstance ''Error'' ''db down'') else (Returned () :: unit outcome))"
       and options=None]
  by (auto simp add: Let_def received_def two_ids_def nth_id_def consumer_attributes_def
        truthy_def or_else_def)

section \<open>Properties of the traceparent parser\<close>

text \<open>Splitting a string that is built from fields without the separator gives the fields back.\<close>

lemma split_on_whole: "d \<notin> set a \<Longrightarrow> split_on d a = [a]"
  by (induction a) auto

lemma split_on_field: "d \<notin> set a \<Longrightarrow> split_on d (a @ d # rest) = a # split_on d rest"
  by (induction a) auto

lemma dash_not_hex: "\<not> is_hex_digit CHR ''-''"
  by (simp add: is_hex_digit_def)

lemma is_hex_no_dash: "is_hex s \<Longrightarrow> CHR ''-'' \<notin> set s"
  unfolding is_hex_def list_all_iff using dash_not_hex by blast

lemma traceparent_fields:
  assumes "is_hex version" "is_hex trace_id" "is_hex parent_id" "is_hex flags"
  shows "split_on CHR ''-'' (version @ ''-'' @ trace_id @ ''-'' @ parent_id @ ''-'' @ flags)
          = [version, trace_id, parent_id, flags]"
  using assms by (simp add: split_on_field split_on_whole is_hex_no_dash)

lemma extract_fields:
  assumes "split_on CHR ''-'' header = [version, trace_id, parent_id, flags]"
  shows "extractTraceIdFromTraceparent (Some header) =
           (if length version = 2 \<and> is_hex version
               \<and> length trace_id = 32 \<and> is_hex trace_id
               \<and> length parent_id = 16 \<and> is_hex parent_id
               \<and> length flags = 2 \<and> is_hex flags
               \<and> trace_id \<noteq> ''00000000000000000000000000000000''
            then Some trace_id else None)"
  unfolding extractTraceIdFromTraceparent_def using assms by (simp add: Let_def)

lemma extract_result:
  assumes "extractTraceIdFromTraceparent h = Some t"
  shows "length t = 32 \<and> is_hex t \<and> t \<noteq> ''00000000000000000000000000000000''"
proof (cases h)
  case None
  with assms show ?thesis by (simp add: extractTraceIdFromTraceparent_def)
next
  case (Some header)
  with assms show ?thesis
    unfolding extractTraceIdFromTraceparent_def Let_def
    by (simp split: if_splits)
qed

lemma extract_wrong_count:
  "length (split_on CHR ''-'' header) \<noteq> 4 \<Longrightarrow> extractTraceIdFromTraceparent (Some header) = None"
  by (simp add: extractTraceIdFromTraceparent_def)

text \<open>
  C8: on a header of the form
  \<open>{2-hex version}-{32-hex trace-id}-{16-hex parent-id}-{2-hex flags}\<close> whose trace id
  is not all zeros the parser returns the trace id; it returns nothing when the header
  is absent, when the number of fields is not four, when the version is malformed and
  when the trace id is the all-zero sentinel. It is defined on every input: whatever the
  header, the result is nothing or a trace id of 32 hexadecimal digits that is not the
  sentinel.
\<close>

theorem extractTraceIdFromTraceparent_contract:
  "(length version = 2 \<and> is_hex version \<and> length trace_id = 32 \<and> is_hex trace_id
      \<and> length parent_id = 16 \<and> is_hex parent_id \<and> length flags = 2 \<and> is_hex flags
      \<and> trace_id \<noteq> ''00000000000000000000000000000000''
      \<longrightarrow> extractTraceIdFromTraceparent
            (Some (version @ ''-'' @ trace_id @ ''-'' @ parent_id @ ''-'' @ flags)) = Some trace_id)
   \<and> extractTraceIdFromTraceparent None = None
   \<and> (length (split_on CHR ''-'' header) \<noteq> 4
        \<longrightarrow> extractTraceIdFromTraceparent (Some header) = None)
   \<and> (split_on CHR ''-'' header = [v, t, p, f] \<and> \<not> (length v = 2 \<and> is_hex v)
        \<longrightarrow> extractTraceIdFromTraceparent (Some header) = None)
   \<and> (split_on CHR ''-'' header = [v, ''00000000000000000000000000000000'', p, f]
        \<longrightarrow> extractTraceIdFromTraceparent (Some header) = None)
   \<and> (extractTraceIdFromTraceparent h = None
        \<or> (\<exists>found. extractTraceIdFromTraceparent h = Some found \<and> length found = 32
               \<and> is_hex found \<and> found \<noteq> ''00000000000000000000000000000000''))"
proof -
  have valid: "length version = 2 \<and> is_hex version \<and> length trace_id = 32 \<and> is_hex trace_id
      \<and> length parent_id = 16 \<and> is_hex parent_id \<and> length flags = 2 \<and> is_hex flags
      \<and> trace_id \<noteq> ''00000000000000000000000000000000''
      \<longrightarrow> extractTraceIdFromTraceparent
            (Some (version @ ''-'' @ trace_id @ ''-'' @ parent_id @ ''-'' @ flags)) = Some trace_id"
  proof
    assume a: "length version = 2 \<and> is_hex version \<and> length trace_id = 32 \<and> is_hex trace_id
      \<and> length parent_id = 16 \<and> is_hex parent_id \<and> length flags = 2 \<and> is_hex flags
      \<and> trace_id \<noteq> ''00000000000000000000000000000000''"
    then have "split_on CHR ''-'' (version @ ''-'' @ trace_id @ ''-'' @ parent_id @ ''-'' @ flags)
                 = [version, trace_id, parent_id, flags]"
      by (intro traceparent_fields) simp_all
    from extract_fields[OF this] a
    show "extractTraceIdFromTraceparent
            (Some (version @ ''-'' @ trace_id @ ''-'' @ parent_id @ ''-'' @ flags)) = Some trace_id"
      by simp
  qed
  have absent: "extractTraceIdFromTraceparent None = None"
    by (simp add: extractTraceIdFromTraceparent_def)
  have count: "length (split_on CHR ''-'' header) \<noteq> 4
        \<longrightarrow> extractTraceIdFromTraceparent (Some header) = None"
    by (simp add: extract_wrong_count)
  have version: "split_on CHR ''-'' header = [v, t, p, f] \<and> \<not> (length v = 2 \<and> is_hex v)
        \<longrightarrow> extractTraceIdFromTraceparent (Some header) = None"
    using extract_fields[of header v t p f] by auto
  have zero: "split_on CHR ''-'' header = [v, ''00000000000000000000000000000000'', p, f]
        \<longrightarrow> extractTraceIdFromTraceparent (Some header) = None"
    using extract_fields[of header v "''00000000000000000000000000000000''" p f] by simp
  have total: "extractTraceIdFromTraceparent h = None
        \<or> (\<exists>found. extractTraceIdFromTraceparent h = Some found \<and> length found = 32
               \<and> is_hex found \<and> found \<noteq> ''00000000000000000000000000000000'')"
    using extract_result[of h] by (cases "extractTraceIdFromTraceparent h") simp_all
  from valid absent count version zero total show ?thesis by blast
qed

theorem extractTraceIdFromTraceparent_contract_witness:
  "extractTraceIdFromTraceparent
     (Some ''00-4bf92f3577b34da6a3ce929d0e0e4736-00f067aa0ba902b7-01'')
     = Some ''4bf92f3577b34da6a3ce929d0e0e4736''
   \<and> extractTraceIdFromTraceparent
     (Some ''00-00000000000000000000000000000000-00f067aa0ba902b7-01'') = None
   \<and> extractTraceIdFromTraceparent (Some ''00-4bf92f3577b34da6a3ce929d0e0e4736-01'') = None
   \<and> extractTraceIdFromTraceparent
     (Some ''0x-4bf92f3577b34da6a3ce929d0e0e4736-00f067aa0ba902b7-01'') = None"
  using extractTraceIdFromTraceparent_contract
    [where version="''00''" and trace_id="''4bf92f3577b34da6a3ce929d0e0e4736''"
       and parent_id="''00f067aa0ba902b7''" and flags="''01''"
       and header="''00-4bf92f3577b34da6a3ce929d0e0e4736-01''"]
    extractTraceIdFromTraceparent_contract
    [where header="''0x-4bf92f3577b34da6a3ce929d0e0e4736-00f067aa0ba902b7-01''"
       and v="''0x''" and t="''4bf92f3577b34da6a3ce929d0e0e4736''"
       and p="''00f067aa0ba902b7''" and f="''01''"]
    extractTraceIdFromTraceparent_contract
    [where header="''00-00000000000000000000000000000000-00f067aa0ba902b7-01''"
       and v="''00''" and p="''00f067aa0ba902b7''" and f="''01''"]
  by (simp add: is_hex_def is_hex_digit_def)

section \<open>Properties of the Express middleware\<close>

text \<open>
  The middleware in pieces. When \<open>extractUserId\<close> throws, the response and the trace
  context are as they were. When it returns, the headers and the trace context are
  written; the listener is added exactly when the request is handed on, which is when
  \<open>additionalAttributes\<close> returns too.
\<close>

lemma nth_id_drawn: "nth_id (g\<lparr>drawn := d\<rparr>) n = nth_id g n"
  by (simp add: nth_id_def)

lemma createTracingMiddleware_user_throws:
  assumes "(case extractUserId options of Some f \<Rightarrow> f req | None \<Rightarrow> Inr None) = Inl error"
  shows "fst (createTracingMiddleware tc options req res w) = res
       \<and> exited (snd (createTracingMiddleware tc options req res w)) = Raised error
       \<and> trace_store (snd (createTracingMiddleware tc options req res w)) = trace_store w
       \<and> tracer (snd (createTracingMiddleware tc options req res w)) = tracer w"
  using assms by (simp add: createTracingMiddleware_def Let_def split: prod.splits)

lemma createTracingMiddleware_after_user:
  assumes "(case extractUserId options of Some f \<Rightarrow> f req | None \<Rightarrow> Inr None) = Inr user"
  shows "createTracingMiddleware tc options req res w =
     (let extracted = extractCorrelationId tc (headers req);
          generate = (\<not> truthy extracted \<and> default_to True (shouldGenerateCorrelationId options));
          correlation = (if generate then Some (nth_id (generator w) (drawn (generator w))) else extracted);
          request_id = nth_id (generator w) (if generate then Suc (drawn (generator w)) else drawn (generator w));
          g2 = (generator w)\<lparr>drawn := (if generate then Suc (Suc (drawn (generator w)))
                                         else Suc (drawn (generator w)))\<rparr>;
          store1 = setTraceContext tc
                     \<lparr>correlationId = correlation,
                      traceId = extractTraceIdFromTraceparent (headers req ''traceparent''),
                      eventId = None, eventType = None, userId = user,
                      spanId = None, requestId = Some request_id\<rparr>
                     (trace_store w);
          current = getCurrentTraceContext tc store1 (tracer w);
          res3 = res\<lparr>setHeader_calls := setHeader_calls res
                   @ (if truthy correlation \<and> default_to True (addCorrelationIdToResponse options)
                      then [(default_to ''x-correlation-id'' (correlationIdHeader options), the correlation)]
                      else [])
                   @ [(''x-request-id'', request_id)]
                   @ (if truthy (traceId current) \<and> default_to True (addTraceIdToResponse options)
                      then [(''x-trace-id'', the (traceId current))] else [])\<rparr>
      in case request_attributes options req correlation request_id user of
           Inl error \<Rightarrow>
             (res3, \<lparr>trace_store = store1, tracer = tracer w, generator = g2,
                     exited = Raised error\<rparr>)
         | Inr spanAttributes \<Rightarrow>
             (res3\<lparr>finish_listeners := finish_listeners res @ [finish_listener]\<rparr>,
              \<lparr>trace_store = store1, tracer = addSpanAttributes spanAttributes (tracer w),
               generator = g2, exited = PassedOn\<rparr>))"
proof (cases "truthy (extractCorrelationId tc (headers req))")
  case True
  then show ?thesis
    using assms
    by (simp add: createTracingMiddleware_def Let_def generateCorrelationId_def nth_id_drawn
          setHeader_def on_finish_def cong: sum.case_cong)
next
  case False
  show ?thesis
  proof (cases "default_to True (shouldGenerateCorrelationId options)")
    case True
    with False show ?thesis
      using assms
      by (simp add: createTracingMiddleware_def Let_def generateCorrelationId_def nth_id_drawn
            setHeader_def on_finish_def cong: sum.case_cong)
  next
    case no: False
    with False show ?thesis
      using assms
      by (simp add: createTracingMiddleware_def Let_def generateCorrelationId_def nth_id_drawn
            setHeader_def on_finish_def cong: sum.case_cong)
  qed
qed

lemma sum_case_headers:
  assumes "setHeader_calls r1 = h" and "setHeader_calls r2 = h"
  shows "setHeader_calls (fst (case x of Inl e \<Rightarrow> (r1, A e) | Inr v \<Rightarrow> (r2, B v))) = h"
  using assms by (cases x) simp_all

lemma sum_case_store:
  assumes "\<And>e. trace_store (A e) = s" and "\<And>v. trace_store (B v) = s"
  shows "trace_store (snd (case x of Inl e \<Rightarrow> (r1, A e) | Inr v \<Rightarrow> (r2, B v))) = s"
  using assms by (cases x) simp_all

lemma sum_case_listeners:
  assumes "\<And>e. finish_listeners r1 = (if exited (A e) = PassedOn then l1 else l2)"
      and "\<And>v. finish_listeners r2 = (if exited (B v) = PassedOn then l1 else l2)"
  shows "finish_listeners (fst (case x of Inl e \<Rightarrow> (r1, A e) | Inr v \<Rightarrow> (r2, B v)))
           = (if exited (snd (case x of Inl e \<Rightarrow> (r1, A e) | Inr v \<Rightarrow> (r2, B v))) = PassedOn
              then l1 else l2)"
  using assms by (cases x) simp_all

lemma sum_case_exited:
  assumes "\<And>e. exited (A e) \<noteq> PassedOn" and "\<And>v. exited (B v) = PassedOn"
  shows "exited (snd (case x of Inl e \<Rightarrow> (r1, A e) | Inr v \<Rightarrow> (r2, B v))) = PassedOn
           \<longleftrightarrow> (\<exists>v. x = Inr v)"
  using assms by (cases x) simp_all

lemma request_attributes_returns:
  "(\<exists>a. request_attributes options req correlation request_id user = Inr a)
     \<longleftrightarrow> (\<forall>f. requestAttributes options = Some f \<longrightarrow> (\<exists>extra. f req = Inr extra))"
  by (auto simp add: request_attributes_def Let_def split: option.splits sum.splits)

lemma createTracingMiddleware_headers:
  assumes "(case extractUserId options of Some f \<Rightarrow> f req | None \<Rightarrow> Inr None) = Inr user"
  shows "setHeader_calls (fst (createTracingMiddleware tc options req res w)) =
     (let extracted = extractCorrelationId tc (headers req);
          generate = (\<not> truthy extracted \<and> default_to True (shouldGenerateCorrelationId options));
          correlation = (if generate then Some (nth_id (generator w) (drawn (generator w))) else extracted);
          request_id = nth_id (generator w) (if generate then Suc (drawn (generator w)) else drawn (generator w));
          current = getCurrentTraceContext tc
                      (setTraceContext tc
                         \<lparr>correlationId = correlation,
                          traceId = extractTraceIdFromTraceparent (headers req ''traceparent''),
                          eventId = None, eventType = None, userId = user,
                          spanId = None, requestId = Some request_id\<rparr>
                         (trace_store w))
                      (tracer w)
      in setHeader_calls res
           @ (if truthy correlation \<and> default_to True (addCorrelationIdToResponse options)
              then [(default_to ''x-correlation-id'' (correlationIdHeader options), the correlation)]
              else [])
           @ [(''x-request-id'', request_id)]
           @ (if truthy (traceId current) \<and> default_to True (addTraceIdToResponse options)
              then [(''x-trace-id'', the (traceId current))] else []))"
  unfolding createTracingMiddleware_after_user[OF assms] Let_def
  by (rule sum_case_headers) simp_all

lemma createTracingMiddleware_store:
  assumes "(case extractUserId options of Some f \<Rightarrow> f req | None \<Rightarrow> Inr None) = Inr user"
  shows "trace_store (snd (createTracingMiddleware tc options req res w)) =
     (let extracted = extractCorrelationId tc (headers req);
          generate = (\<not> truthy extracted \<and> default_to True (shouldGenerateCorrelationId options));
          correlation = (if generate then Some (nth_id (generator w) (drawn (generator w))) else extracted);
          request_id = nth_id (generator w) (if generate then Suc (drawn (generator w)) else drawn (generator w))
      in setTraceContext tc
           \<lparr>correlationId = correlation,
            traceId = extractTraceIdFromTraceparent (headers req ''traceparent''),
            eventId = None, eventType = None, userId = user,
            spanId = None, requestId = Some request_id\<rparr>
           (trace_store w))"
  unfolding createTracingMiddleware_after_user[OF assms] Let_def
  by (rule sum_case_store) simp_all

lemma createTracingMiddleware_listeners:
  "finish_listeners (fst (createTracingMiddleware tc options req res w)) =
     (if exited (snd (createTracingMiddleware tc options req res w)) = PassedOn
      then finish_listeners res @ [finish_listener] else finish_listeners res)"
proof (cases "case extractUserId options of Some f \<Rightarrow> f req | None \<Rightarrow> Inr None")
  case (Inl error)
  then show ?thesis
    using createTracingMiddleware_user_throws
            [where options=options and req=req and error=error and tc=tc and res=res and w=w]
    by simp
next
  case (Inr user)
  show ?thesis
    unfolding createTracingMiddleware_after_user[OF Inr] Let_def
    by (rule sum_case_listeners) simp_all
qed

lemma createTracingMiddleware_passes_on:
  "exited (snd (createTracingMiddleware tc options req res w)) = PassedOn
     \<longleftrightarrow> (\<forall>f. extractUserId options = Some f \<longrightarrow> (\<exists>user. f req = Inr user))
       \<and> (\<forall>f. requestAttributes options = Some f \<longrightarrow> (\<exists>extra. f req = Inr extra))"
proof (cases "case extractUserId options of Some f \<Rightarrow> f req | None \<Rightarrow> Inr None")
  case (Inl error)
  then show ?thesis
    using createTracingMiddleware_user_throws
            [where options=options and req=req and error=error and tc=tc and res=res and w=w]
    by (auto split: option.splits)
next
  case (Inr user)
  then have returns: "\<forall>f. extractUserId options = Some f \<longrightarrow> (\<exists>user. f req = Inr user)"
    by (auto split: option.splits)
  have "exited (snd (createTracingMiddleware tc options req res w)) = PassedOn
          \<longleftrightarrow> (\<forall>f. requestAttributes options = Some f \<longrightarrow> (\<exists>extra. f req = Inr extra))"
    unfolding createTracingMiddleware_after_user[OF Inr] Let_def
    by (subst sum_case_exited) (simp_all add: request_attributes_returns)
  with returns show ?thesis by blast
qed

subsection \<open>The status of the span when the response finishes\<close>

lemma finish_listener_active:
  assumes "getCurrentSpan st = Some s"
  shows "finish_listener code st =
           st\<lparr>active_span := Some (s\<lparr>calls := calls s @
              [SetAttributes [(''http.response.status_code'', ANum code)],
               SetStatus (if 500 \<le> code then ERROR else OK)
                         (if 500 \<le> code then Some (''HTTP '' @ number_string code) else None)]\<rparr>)\<rparr>"
  using assms
  by (simp add: finish_listener_def addSpanAttributes_def setSpanStatus_def getCurrentSpan_def
        invoke_def Let_def)

lemma finish_listener_inactive:
  assumes "getCurrentSpan st = None"
  shows "finish_listener code st = st"
  using assms
  by (simp add: finish_listener_def addSpanAttributes_def setSpanStatus_def Let_def)

lemma emit_finish_after_middleware:
  "emit_finish (fst (createTracingMiddleware tc options req res w)\<lparr>statusCode := code\<rparr>) st
     = (if exited (snd (createTracingMiddleware tc options req res w)) = PassedOn
        then finish_listener code (emit_finish (res\<lparr>statusCode := code\<rparr>) st)
        else emit_finish (res\<lparr>statusCode := code\<rparr>) st)"
  by (simp add: createTracingMiddleware_listeners emit_finish_def)

text \<open>
  C5, as stated, fails for a request that has no active span when its response
  finishes, such as a request that the HTTP instrumentation ignores: the listener calls
  \<open>addSpanAttributes\<close> and \<open>setSpanStatus\<close>, which do nothing without an active
  span. The response below finishes with status 500; no status code is recorded and no
  status is set.
\<close>

theorem finish_without_span_counterexample:
  "exited (snd (createTracingMiddleware spec_trace_context no_options (get_users Map.empty)
                  fresh_response start_world)) = PassedOn
   \<and> emit_finish
       (fst (createTracingMiddleware spec_trace_context no_options (get_users Map.empty)
               fresh_response start_world)\<lparr>statusCode := 500\<rparr>)
       no_span
     = no_span
   \<and> getCurrentSpan no_span = None"
  unfolding emit_finish_after_middleware createTracingMiddleware_passes_on
  by (simp add: finish_listener_inactive getCurrentSpan_def emit_finish_def no_options_def
        fresh_response_def no_span_def)

text \<open>
  C5, amended: for a request that the middleware hands on, when the response finishes
  and a span is active at that moment, the listener of the middleware adds the status
  code the response then has to that span as the attribute
  \<open>http.response.status_code\<close> and sets the status of the span: \<open>ERROR\<close> exactly
  when the code is 500 or more, \<open>OK\<close> for every other code, the codes from 400 to 499
  included. When no span is active at that moment, nothing is recorded. When the
  middleware did not hand the request on, because one of the two functions of the
  options threw, it has added no listener and nothing is recorded.
\<close>

theorem finish_sets_status_from_code:
  assumes "handled = createTracingMiddleware tc options req res w"
      and "before = emit_finish (res\<lparr>statusCode := code\<rparr>) st"
      and "finished = emit_finish (fst handled\<lparr>statusCode := code\<rparr>) st"
  shows "(exited (snd handled) = PassedOn \<longrightarrow>
            (case getCurrentSpan before of
               None \<Rightarrow> finished = before
             | Some s \<Rightarrow>
                 \<exists>s'. getCurrentSpan finished = Some s'
                    \<and> calls s' = calls s @
                        [SetAttributes [(''http.response.status_code'', ANum code)],
                         SetStatus (if 500 \<le> code then ERROR else OK)
                                   (if 500 \<le> code then Some (''HTTP '' @ number_string code) else None)]
                    \<and> (fst (span_status s') = ERROR \<longleftrightarrow> 500 \<le> code)
                    \<and> (fst (span_status s') = OK \<longleftrightarrow> code < 500)))
       \<and> (exited (snd handled) \<noteq> PassedOn \<longrightarrow> finished = before)"
proof (cases "getCurrentSpan before")
  case None
  then show ?thesis
    unfolding assms(3) assms(1) emit_finish_after_middleware
    using assms(2) by (simp add: finish_listener_inactive)
next
  case (Some s)
  then have "getCurrentSpan (emit_finish (res\<lparr>statusCode := code\<rparr>) st) = Some s"
    using assms(2) by simp
  then show ?thesis
    unfolding assms(3) assms(1) emit_finish_after_middleware
    using assms(2) Some
    by (simp add: finish_listener_active getCurrentSpan_def span_status_def)
qed

theorem finish_sets_status_from_code_witness:
  "exited (snd (createTracingMiddleware spec_trace_context no_options (get_users Map.empty)
                  fresh_response start_world)) = PassedOn
   \<and> map_option span_status (getCurrentSpan (emit_finish
      (fst (createTracingMiddleware spec_trace_context no_options (get_users Map.empty)
              fresh_response start_world)\<lparr>statusCode := 404\<rparr>)
      request_span))
     = Some (OK, None)
   \<and> map_option span_status (getCurrentSpan (emit_finish
      (fst (createTracingMiddleware spec_trace_context no_options (get_users Map.empty)
              fresh_response start_world)\<lparr>statusCode := 500\<rparr>)
      request_span))
     = Some (ERROR, Some ''HTTP 500'')"
  using finish_sets_status_from_code
    [where res=fresh_response and code=404 and st=request_span
       and tc=spec_trace_context and options=no_options and req="get_users Map.empty"
       and w=start_world, OF refl refl refl]
    finish_sets_status_from_code
    [where res=fresh_response and code=500 and st=request_span
       and tc=spec_trace_context and options=no_options and req="get_users Map.empty"
       and w=start_world, OF refl refl refl]
  by (auto simp add: createTracingMiddleware_passes_on emit_finish_def getCurrentSpan_def
        span_status_def fresh_response_def request_span_def no_options_def number_string_def
        decimal.simps)

subsection \<open>The response headers\<close>

text \<open>An option that defaults to \<open>true\<close> is off only when it is given as \<open>false\<close>.\<close>

lemma default_to_True: "default_to True x \<longleftrightarrow> x \<noteq> Some False"
  by (cases x) (auto simp add: default_to_def)

lemma traceparent_example:
  "extractTraceIdFromTraceparent
     (Some ''00-4bf92f3577b34da6a3ce929d0e0e4736-00f067aa0ba902b7-01'')
     = Some ''4bf92f3577b34da6a3ce929d0e0e4736''"
  using extract_fields
    [OF traceparent_fields
          [of "''00''" "''4bf92f3577b34da6a3ce929d0e0e4736''" "''00f067aa0ba902b7''" "''01''"]]
  by (simp add: is_hex_def is_hex_digit_def)

text \<open>
  C7, as stated, fails for \<open>x-request-id\<close>: the options have no switch for it. With
  every switch of the options off and nothing to extract from the request, the
  middleware still writes it.
\<close>

theorem request_id_header_counterexample:
  "setHeader_calls (fst (createTracingMiddleware spec_trace_context
      (no_options\<lparr>shouldGenerateCorrelationId := Some False,
                   addCorrelationIdToResponse := Some False,
                   addTraceIdToResponse := Some False\<rparr>)
      (get_users Map.empty) fresh_response start_world))
     = [(''x-request-id'', ''generated-0'')]"
  by (simp add: createTracingMiddleware_headers[where user=None] Let_def spec_trace_context_def
        truthy_def default_to_def no_options_def get_users_def fresh_response_def
        start_world_def two_ids_def nth_id_def)

text \<open>
  C7, amended: the middleware writes three response headers, in this order. It writes
  the correlation header, under its configured name, when there is a correlation id,
  extracted or generated, and \<open>addCorrelationIdToResponse\<close> is not off; it writes
  \<open>x-request-id\<close> with the generated request id for every configuration; it writes
  \<open>x-trace-id\<close> when the current trace context has a trace id and
  \<open>addTraceIdToResponse\<close> is not off. So the first and the third each have an option
  that prevents them, and \<open>x-request-id\<close> has none. The middleware writes these and
  no other header; when \<open>extractUserId\<close> throws, it writes none.
\<close>

theorem response_header_toggles:
  "case (case extractUserId options of Some f \<Rightarrow> f req | None \<Rightarrow> Inr None) of
     Inl error \<Rightarrow>
       setHeader_calls (fst (createTracingMiddleware tc options req res w)) = setHeader_calls res
   | Inr user \<Rightarrow>
       (let extracted = extractCorrelationId tc (headers req);
            generate = (\<not> truthy extracted \<and> shouldGenerateCorrelationId options \<noteq> Some False);
            correlation = (if generate then Some (nth_id (generator w) (drawn (generator w)))
                           else extracted);
            request_id = nth_id (generator w)
                           (if generate then Suc (drawn (generator w)) else drawn (generator w));
            current = getCurrentTraceContext tc
                        (setTraceContext tc
                           \<lparr>correlationId = correlation,
                            traceId = extractTraceIdFromTraceparent (headers req ''traceparent''),
                            eventId = None, eventType = None, userId = user,
                            spanId = None, requestId = Some request_id\<rparr>
                           (trace_store w))
                        (tracer w)
        in setHeader_calls (fst (createTracingMiddleware tc options req res w))
             = setHeader_calls res
               @ (if truthy correlation \<and> addCorrelationIdToResponse options \<noteq> Some False
                  then [(case correlationIdHeader options of
                           Some name \<Rightarrow> name | None \<Rightarrow> ''x-correlation-id'',
                         the correlation)]
                  else [])
               @ [(''x-request-id'', request_id)]
               @ (if truthy (traceId current) \<and> addTraceIdToResponse options \<noteq> Some False
                  then [(''x-trace-id'', the (traceId current))]
                  else []))"
proof (cases "case extractUserId options of Some f \<Rightarrow> f req | None \<Rightarrow> Inr None")
  case (Inl error)
  then show ?thesis
    using createTracingMiddleware_user_throws
            [where options=options and req=req and error=error and tc=tc and res=res and w=w]
    by simp
next
  case (Inr user)
  have name: "default_to ''x-correlation-id'' (correlationIdHeader options)
                = (case correlationIdHeader options of
                     Some name \<Rightarrow> name | None \<Rightarrow> ''x-correlation-id'')"
    by (simp add: default_to_def)
  show ?thesis
    unfolding Inr sum.case createTracingMiddleware_headers[OF Inr] default_to_True name
    by (simp add: Let_def)
qed

theorem response_header_toggles_witness:
  "setHeader_calls (fst (createTracingMiddleware spec_trace_context no_options
      (get_users [''x-correlation-id'' \<mapsto> ''c-1'',
                  ''traceparent'' \<mapsto> ''00-4bf92f3577b34da6a3ce929d0e0e4736-00f067aa0ba902b7-01''])
      fresh_response start_world))
     = [(''x-correlation-id'', ''c-1''), (''x-request-id'', ''generated-0''),
        (''x-trace-id'', ''4bf92f3577b34da6a3ce929d0e0e4736'')]
   \<and> setHeader_calls (fst (createTracingMiddleware spec_trace_context
      (no_options\<lparr>addCorrelationIdToResponse := Some False\<rparr>)
      (get_users [''x-correlation-id'' \<mapsto> ''c-1'',
                  ''traceparent'' \<mapsto> ''00-4bf92f3577b34da6a3ce929d0e0e4736-00f067aa0ba902b7-01''])
      fresh_response start_world))
     = [(''x-request-id'', ''generated-0''),
        (''x-trace-id'', ''4bf92f3577b34da6a3ce929d0e0e4736'')]
   \<and> setHeader_calls (fst (createTracingMiddleware spec_trace_context
      (no_options\<lparr>addTraceIdToResponse := Some False\<rparr>)
      (get_users [''x-correlation-id'' \<mapsto> ''c-1'',
                  ''traceparent'' \<mapsto> ''00-4bf92f3577b34da6a3ce929d0e0e4736-00f067aa0ba902b7-01''])
      fresh_response start_world))
     = [(''x-correlation-id'', ''c-1''), (''x-request-id'', ''generated-0'')]"
  using response_header_toggles
    [where tc=spec_trace_context and options=no_options
       and req="get_users [''x-correlation-id'' \<mapsto> ''c-1'',
                  ''traceparent'' \<mapsto> ''00-4bf92f3577b34da6a3ce929d0e0e4736-00f067aa0ba902b7-01'']"
       and res=fresh_response and w=start_world]
    response_header_toggles
    [where tc=spec_trace_context
       and options="no_options\<lparr>addCorrelationIdToResponse := Some False\<rparr>"
       and req="get_users [''x-correlation-id'' \<mapsto> ''c-1'',
                  ''traceparent'' \<mapsto> ''00-4bf92f3577b34da6a3ce929d0e0e4736-00f067aa0ba902b7-01'']"
       and res=fresh_response and w=start_world]
    response_header_toggles
    [where tc=spec_trace_context
       and options="no_options\<lparr>addTraceIdToResponse := Some False\<rparr>"
       and req="get_users [''x-correlation-id'' \<mapsto> ''c-1'',
                  ''traceparent'' \<mapsto> ''00-4bf92f3577b34da6a3ce929d0e0e4736-00f067aa0ba902b7-01'']"
       and res=fresh_response and w=start_world]
  by (simp add: Let_def spec_trace_context_def truthy_def merge_context_def empty_context_def
        traceparent_example no_options_def get_users_def fresh_response_def start_world_def
        two_ids_def nth_id_def)

subsection \<open>Where the ids come from\<close>

text \<open>
  C6 on a request that carries its correlation id in the configured header: with
  \<open>correlationIdHeader\<close> set to \<open>x-flow-id\<close> and a request header
  \<open>x-flow-id: abc-123\<close>, the correlation id installed and written back is a generated
  one. The middleware hands \<open>extractCorrelationId\<close> the headers without the configured
  name, and uses that name only for the response header.
\<close>

theorem configured_correlation_header_not_read:
  "setHeader_calls (fst (createTracingMiddleware spec_trace_context
      (no_options\<lparr>correlationIdHeader := Some ''x-flow-id''\<rparr>)
      (get_users [''x-flow-id'' \<mapsto> ''abc-123'']) fresh_response start_world))
     = [(''x-flow-id'', ''generated-0''), (''x-request-id'', ''generated-1'')]
   \<and> correlationId (trace_store (snd (createTracingMiddleware spec_trace_context
      (no_options\<lparr>correlationIdHeader := Some ''x-flow-id''\<rparr>)
      (get_users [''x-flow-id'' \<mapsto> ''abc-123'']) fresh_response start_world)))
     = Some ''generated-0''
   \<and> requestId (trace_store (snd (createTracingMiddleware spec_trace_context
      (no_options\<lparr>correlationIdHeader := Some ''x-flow-id''\<rparr>)
      (get_users [''x-flow-id'' \<mapsto> ''abc-123'']) fresh_response start_world)))
     = Some ''generated-1''"
  by (simp add: createTracingMiddleware_headers[where user=None]
        createTracingMiddleware_store[where user=None] Let_def
        spec_trace_context_def truthy_def default_to_def merge_context_def empty_context_def
        extractTraceIdFromTraceparent_def no_options_def get_users_def fresh_response_def
        start_world_def two_ids_def nth_id_def)

text \<open>
  For every implementation of the trace-context module, the trace context that the
  middleware installs does not depend on the configured header name.
\<close>

lemma correlation_id_ignores_configured_header:
  "trace_store (snd (createTracingMiddleware tc (options\<lparr>correlationIdHeader := configured\<rparr>) req res w))
     = trace_store (snd (createTracingMiddleware tc options req res w))"
proof (cases "case extractUserId options of Some f \<Rightarrow> f req | None \<Rightarrow> Inr None")
  case (Inl error)
  then show ?thesis
    using createTracingMiddleware_user_throws
            [where options=options and req=req and error=error and tc=tc and res=res and w=w]
          createTracingMiddleware_user_throws
            [where options="options\<lparr>correlationIdHeader := configured\<rparr>" and req=req
               and error=error and tc=tc and res=res and w=w]
    by simp
next
  case (Inr user)
  then show ?thesis
    using createTracingMiddleware_store
            [where options=options and req=req and user=user and tc=tc and res=res and w=w]
          createTracingMiddleware_store
            [where options="options\<lparr>correlationIdHeader := configured\<rparr>" and req=req
               and user=user and tc=tc and res=res and w=w]
    by simp
qed

text \<open>
  The request id that is installed in the trace context and written to
  \<open>x-request-id\<close> is the id the generator returns for this request: the first one
  drawn, or the second when a correlation id was generated before it. No header of the
  request enters it.
\<close>

lemma request_id_is_generated:
  assumes "(case extractUserId options of Some f \<Rightarrow> f req | None \<Rightarrow> Inr None) = Inr user"
  shows "\<exists>k given. (k = drawn (generator w) \<or> k = Suc (drawn (generator w)))
      \<and> requestId given = Some (nth_id (generator w) k)
      \<and> trace_store (snd (createTracingMiddleware tc options req res w))
           = setTraceContext tc given (trace_store w)
      \<and> (''x-request-id'', nth_id (generator w) k)
           \<in> set (setHeader_calls (fst (createTracingMiddleware tc options req res w)))"
proof -
  define generate where
    "generate = (\<not> truthy (extractCorrelationId tc (headers req))
                 \<and> default_to True (shouldGenerateCorrelationId options))"
  define k where
    "k = (if generate then Suc (drawn (generator w)) else drawn (generator w))"
  define given where
    "given = \<lparr>correlationId = (if generate then Some (nth_id (generator w) (drawn (generator w)))
                               else extractCorrelationId tc (headers req)),
              traceId = extractTraceIdFromTraceparent (headers req ''traceparent''),
              eventId = None, eventType = None, userId = user,
              spanId = None, requestId = Some (nth_id (generator w) k)\<rparr>"
  have "k = drawn (generator w) \<or> k = Suc (drawn (generator w))"
    unfolding k_def by simp
  moreover have "requestId given = Some (nth_id (generator w) k)"
    unfolding given_def by simp
  moreover have "trace_store (snd (createTracingMiddleware tc options req res w))
                   = setTraceContext tc given (trace_store w)"
    unfolding createTracingMiddleware_store[OF assms] Let_def given_def k_def generate_def by simp
  moreover have "(''x-request-id'', nth_id (generator w) k)
                   \<in> set (setHeader_calls (fst (createTracingMiddleware tc options req res w)))"
    unfolding createTracingMiddleware_headers[OF assms] Let_def k_def generate_def by simp
  ultimately show ?thesis by blast
qed

end
